theory Spec2Isabelle
  imports Main
begin

section \<open>Data model of the authorization engine (packages/core/src/authorization.ts)\<close>

text \<open>
  A class constructor is identified by its name; \<open>===\<close> on classes is equality of names.
\<close>

type_synonym cls = string

text \<open>
  Run-time values. \<open>Obj c kvs\<close> is an object whose constructor is named \<open>c\<close>, with its own
  properties in insertion order. Numbers are integers; built-in prototype members
  (\<open>constructor\<close>, \<open>toString\<close>, ...) are not own properties and are not modelled.
\<close>

datatype jsval =
    Undefined
  | Null
  | Bool bool
  | Num int
  | Str string
  | Arr "jsval list"
  | Obj string "(string \<times> jsval) list"

text \<open>
  A reflected type, \<open>Class | Class[]\<close>: \<open>TPrim n\<close> is a built-in constructor
  (\<open>String\<close>, \<open>Number\<close>, \<open>Boolean\<close>, \<open>Date\<close>, \<open>Object\<close>, \<open>Promise\<close>, or a missing type);
  \<open>TClass c\<close> is a user class; \<open>TArray t\<close> is the array literal \<open>[t]\<close>, whose element
  \<open>type[0]\<close> is \<open>t\<close>. \<open>Array.isArray(type)\<close> is a match on \<open>TArray\<close>, and \<open>isCustomClass\<close>
  (common.ts, not among the sources) is the distinction of \<open>TClass\<close> from \<open>TPrim\<close>.
\<close>

datatype ty = TPrim string | TClass cls | TArray ty

datatype access = Route | Read | Write

datatype location = LClass | LParameter | LMethod

record authorizeDecorator =
  policies :: "string list"
  access :: access
  tag :: string
  location :: location

text \<open>
  The entries of a \<open>decorators\<close> array: the authorize decorator
  (\<open>type: "plumier-meta:authorize"\<close>), and the decorators recognised by their \<open>kind\<close>:
  relation, entity id, entity policy provider (entity, idParam), response type.
\<close>

datatype decorator =
    Authorize authorizeDecorator
  | Relation
  | EntityId
  | EntityPolicyProvider cls string
  | ResponseType ty
  | OtherDecorator string

datatype kind = KClass | KMethod | KProperty | KParameter

text \<open>A \<open>PropertyReflection\<close> or \<open>ParameterReflection\<close>.\<close>

record reflection =
  kind :: kind
  name :: string
  type :: ty
  decorators :: "decorator list"

text \<open>
  \<open>metadata.current\<close>: the reflection under evaluation together with its \<open>parent\<close> class.
  Only \<open>kind\<close>, \<open>name\<close> and \<open>parent\<close> are read by the functions below.
\<close>

record current =
  ckind :: kind
  cname :: string
  cparent :: "cls option"

record routeInfo =
  controllerName :: cls
  controllerDecorators :: "decorator list"
  actionName :: string
  actionDecorators :: "decorator list"
  actionParameters :: "reflection list"
  actionReturnType :: "ty option"

text \<open>
  A global default, \<open>string | string[]\<close>; \<open>config.globalAuthorizations\<close> is one of these or
  \<open>undefined\<close> (\<open>None\<close>).
\<close>

datatype globalAuth = GString string | GList "string list"

text \<open>
  The \<open>ActionContext\<close>. \<open>config.authPolicies\<close>, the array shared by every request, is not
  kept here but in the \<open>state\<close> below, because \<open>PolicyAuthorizer.authorize\<close> mutates it.
\<close>

record actionContext =
  route :: routeInfo
  stateUser :: "(string \<times> jsval) list option"
  parameters :: "jsval list"
  httpMethod :: string
  enableAuthorization :: bool
  globalAuthorizations :: "globalAuth option"
  responseTransformer :: "(current \<Rightarrow> jsval \<Rightarrow> jsval) option"

text \<open>
  The \<open>AuthorizationContext\<close>. \<open>user\<close> is the claims object or \<open>undefined\<close> (\<open>None\<close>).
  \<open>metadataCurrent = None\<close> is the empty object \<open>{}\<close> that \<open>createAuthContext\<close> installs.
\<close>

record authctx =
  user :: "(string \<times> jsval) list option"
  ctxAccess :: access
  val :: jsval
  parentValue :: jsval
  metadataCurrent :: "current option"
  ctx :: actionContext

datatype error = HttpStatusError nat string | Error string | TypeError

text \<open>
  What a user-supplied evaluator throws (or rejects with): an \<open>Error\<close> with its \<open>stack\<close>,
  or any other value, given by the text a template literal renders for it.
\<close>

datatype throwable = ErrorObject string | NonError string

text \<open>
  The policy classes: \<open>CustomAuthPolicy\<close> (name, authorizer), its four built-in subclasses,
  and \<open>EntityAuthPolicy\<close> (name, entity, authorizer). An authorizer returns a boolean or throws.
\<close>

datatype policy =
    CustomAuthPolicy string "authctx \<Rightarrow> throwable + bool"
  | PublicAuthPolicy
  | AuthenticatedAuthPolicy
  | ReadonlyAuthPolicy
  | WriteonlyAuthPolicy
  | EntityAuthPolicy string cls "authctx \<Rightarrow> jsval \<Rightarrow> throwable + bool"

text \<open>
  The mutable state: the shared array \<open>config.authPolicies\<close>, and \<open>invoked\<close>, the record of
  every call \<open>authPolicy.authorize(ctx)\<close> made by \<open>PolicyAuthorizer.authorize\<close>, as the policy's
  name and \<open>ctx.value\<close> (what a recording policy would observe).
\<close>

record state =
  authPolicies :: "policy list"
  invoked :: "(string \<times> jsval) list"

type_synonym classes = "(cls \<times> reflection list) list"

section \<open>Helpers\<close>

text \<open>
  Modelled from the spec: the \<open>HttpStatus\<close> enum (http-status.ts is not among the sources);
  Forbidden maps to status 403 and Unauthorized to status 401.
\<close>

definition Forbidden :: nat where
  "Forbidden = 403"

definition Unauthorized :: nat where
  "Unauthorized = 401"

text \<open>\<open>reflect(type).properties\<close>, from the table of reflected classes.\<close>

definition reflect :: "classes \<Rightarrow> cls \<Rightarrow> reflection list" where
  "reflect env c = (case map_of env c of None \<Rightarrow> [] | Some ps \<Rightarrow> ps)"

text \<open>
  Modelled from the spec: \<open>entityHelper.getIdProp\<close> (common.ts is not among the sources),
  the property of the entity flagged as the primary identifier.
\<close>

definition getIdProp :: "classes \<Rightarrow> cls \<Rightarrow> reflection option" where
  "getIdProp env entity = find (\<lambda>p. EntityId \<in> set (decorators p)) (reflect env entity)"

text \<open>
  Modelled from the spec: \<open>metadata.actionParams.get(name)\<close> (\<open>MetadataImpl\<close> is not among the
  sources); the value is read from the already-bound parameters by the parameter's name.
\<close>

definition actionParamsGet :: "actionContext \<Rightarrow> string \<Rightarrow> jsval" where
  "actionParamsGet c n =
     (case map_of (zip (map name (actionParameters (route c))) (parameters c)) n of
        None \<Rightarrow> Undefined | Some v \<Rightarrow> v)"

text \<open>
  \<open>raw[name]\<close> for the name of a declared property: a \<open>TypeError\<close> on \<open>null\<close> and
  \<open>undefined\<close>, the own property of an object, \<open>undefined\<close> when it is missing and on
  every other value. The names read are those of declared properties; a property declared
  under the name of a built-in or inherited member (\<open>length\<close>, an index, \<open>constructor\<close>,
  ...) would read that member, which is not modelled.
\<close>

fun getProp :: "jsval \<Rightarrow> string \<Rightarrow> error + jsval" where
  "getProp Undefined n = Inl TypeError"
| "getProp Null n = Inl TypeError"
| "getProp (Obj c kvs) n = (case map_of kvs n of None \<Rightarrow> Inr Undefined | Some v \<Rightarrow> Inr v)"
| "getProp v n = Inr Undefined"

fun join :: "string \<Rightarrow> string list \<Rightarrow> string" where
  "join sep [] = []"
| "join sep [x] = x"
| "join sep (x # y # ys) = x @ sep @ join sep (y # ys)"

definition digit :: "nat \<Rightarrow> char" where
  "digit n = ''0123456789'' ! n"

function toString :: "nat \<Rightarrow> string" where
  "toString n = (if n < 10 then [digit n] else toString (n div 10) @ [digit (n mod 10)])"
  by pat_completeness auto
termination
  by (relation "measure id") auto

text \<open>
  \<open>decorators.filter(createDecoratorFilter(predicate))\<close>: the entries that are authorize
  decorators and satisfy the predicate, in their order, typed as authorize decorators.
\<close>

fun authorizeDecorators :: "(authorizeDecorator \<Rightarrow> bool) \<Rightarrow> decorator list \<Rightarrow> authorizeDecorator list" where
  "authorizeDecorators predicate [] = []"
| "authorizeDecorators predicate (Authorize d # ds) =
     (if predicate d then d # authorizeDecorators predicate ds else authorizeDecorators predicate ds)"
| "authorizeDecorators predicate (_ # ds) = authorizeDecorators predicate ds"

text \<open>
  \<open>getGlobalDecorators\<close>, on a string or an array of strings as its parameter type has it;
  \<open>appliedClass\<close> and \<open>evaluation\<close>, which no function below reads, are left out of the
  decorator.
\<close>

definition getGlobalDecorators :: "globalAuth \<Rightarrow> authorizeDecorator list" where
  "getGlobalDecorators globalDecorator =
     (let ps = (case globalDecorator of GString s \<Rightarrow> [s] | GList l \<Rightarrow> l)
      in [\<lparr>policies = ps, access = Route, tag = join ''|'' ps, location = LMethod\<rparr>])"

text \<open>\<open>!globalDecorator\<close>: \<open>undefined\<close> and the empty string are falsy, every array is truthy.\<close>

fun falsyGlobal :: "globalAuth option \<Rightarrow> bool" where
  "falsyGlobal None = True"
| "falsyGlobal (Some (GString s)) = (s = [])"
| "falsyGlobal (Some (GList l)) = False"

definition getRouteAuthorizeDecorators ::
  "routeInfo \<Rightarrow> globalAuth option \<Rightarrow> authorizeDecorator list" where
  "getRouteAuthorizeDecorators info globalDecorator =
     (let actionDecs = authorizeDecorators (\<lambda>x. access x = Route) (actionDecorators info) in
      if length actionDecs > 0 then actionDecs
      else
        let controllerDecs = authorizeDecorators (\<lambda>x. access x = Route) (controllerDecorators info) in
        if length controllerDecs > 0 then controllerDecs
        else
          (case globalDecorator of
             None \<Rightarrow> []
           | Some g \<Rightarrow> if falsyGlobal (Some g) then [] else getGlobalDecorators g))"

definition createAuthContext :: "actionContext \<Rightarrow> access \<Rightarrow> authctx" where
  "createAuthContext c a =
     \<lparr>user = stateUser c, ctxAccess = a, val = Undefined, parentValue = Undefined,
      metadataCurrent = None, ctx = c\<rparr>"

definition throwAuthError :: "authctx \<Rightarrow> string option \<Rightarrow> error" where
  "throwAuthError c msg =
     (if user c = None
      then HttpStatusError Forbidden (case msg of None \<Rightarrow> ''Forbidden'' | Some m \<Rightarrow> m)
      else HttpStatusError Unauthorized (case msg of None \<Rightarrow> ''Unauthorized'' | Some m \<Rightarrow> m))"

fun kindLower :: "kind \<Rightarrow> string" where
  "kindLower KClass = ''class''"
| "kindLower KMethod = ''method''"
| "kindLower KProperty = ''property''"
| "kindLower KParameter = ''parameter''"

text \<open>
  \<open>getErrorLocation\<close>. Reading \<open>kind.toLowerCase()\<close> of the empty object, or \<open>name\<close> of a
  missing parent, is a \<open>TypeError\<close>.
\<close>

definition getErrorLocation :: "current option \<Rightarrow> error + string" where
  "getErrorLocation cur =
     (case cur of
        None \<Rightarrow> Inl TypeError
      | Some c \<Rightarrow>
          if ckind c = KClass then Inr (''class '' @ cname c)
          else (case cparent c of
                  None \<Rightarrow> Inl TypeError
                | Some p \<Rightarrow> Inr (kindLower (ckind c) @ '' '' @ p @ ''.'' @ cname c)))"

section \<open>Authorization policies\<close>

fun policyName :: "policy \<Rightarrow> string" where
  "policyName (CustomAuthPolicy n f) = n"
| "policyName PublicAuthPolicy = ''Public''"
| "policyName AuthenticatedAuthPolicy = ''Authenticated''"
| "policyName ReadonlyAuthPolicy = ''plumier::readonly''"
| "policyName WriteonlyAuthPolicy = ''plumier::writeonly''"
| "policyName (EntityAuthPolicy n e f) = n"

text \<open>\<open>EntityAuthPolicy.getEntity\<close>: the provider's entity and the id value.\<close>

definition getEntity :: "classes \<Rightarrow> authctx \<Rightarrow> error + (cls \<times> jsval)" where
  "getEntity env c =
     (if ctxAccess c = Route \<or> ctxAccess c = Write then
        (case find (\<lambda>x. case x of EntityPolicyProvider e i \<Rightarrow> True | _ \<Rightarrow> False)
                (actionDecorators (route (ctx c))) of
           Some (EntityPolicyProvider e idParam) \<Rightarrow> Inr (e, actionParamsGet (ctx c) idParam)
         | _ \<Rightarrow> Inl (Error (''Action '' @ controllerName (route (ctx c)) @ ''.''
                  @ actionName (route (ctx c)) @ '' doesn't have Entity Policy Provider information'')))
      else
        (case metadataCurrent c of
           None \<Rightarrow> Inl TypeError
         | Some cur \<Rightarrow>
             (case cparent cur of
                None \<Rightarrow> Inl TypeError
              | Some entity \<Rightarrow>
                  (case getIdProp env entity of
                     None \<Rightarrow> Inl (Error (''Entity '' @ entity
                        @ '' doesn't have primary ID information required for entity policy''))
                   | Some prop \<Rightarrow>
                       (case getProp (parentValue c) (name prop) of
                          Inl e \<Rightarrow> Inl e
                        | Inr i \<Rightarrow> Inr (entity, i))))))"

text \<open>\<open>equals(id, ctx)\<close> of each policy class.\<close>

fun policyEquals :: "classes \<Rightarrow> policy \<Rightarrow> string \<Rightarrow> authctx \<Rightarrow> error + bool" where
  "policyEquals env (EntityAuthPolicy n entity f) i c =
     (if i = n then
        (case getEntity env c of
           Inl e \<Rightarrow> Inl e
         | Inr provider \<Rightarrow> Inr (entity = fst provider))
      else Inr False)"
| "policyEquals env p i c = Inr (i = policyName p)"

definition newline :: string where
  "newline = [CHR 0x0A]"

text \<open>The \<open>catch\<close> block shared by both policy classes: \<open>e instanceof Error ? e.stack : e\<close>.\<close>

fun thrownMessage :: "throwable \<Rightarrow> string" where
  "thrownMessage (ErrorObject stack) = stack"
| "thrownMessage (NonError v) = v"

text \<open>\<open>authorize(ctx)\<close> of each policy class.\<close>

fun policyAuthorize :: "classes \<Rightarrow> policy \<Rightarrow> authctx \<Rightarrow> error + bool" where
  "policyAuthorize env (CustomAuthPolicy n authorizer) c =
     (case authorizer c of
        Inr b \<Rightarrow> Inr b
      | Inl e \<Rightarrow>
          (case getErrorLocation (metadataCurrent c) of
             Inl te \<Rightarrow> Inl te
           | Inr loc \<Rightarrow> Inl (Error (''Error occur inside authorization policy '' @ n @ '' on ''
                @ loc @ '' '' @ newline @ '' '' @ thrownMessage e))))"
| "policyAuthorize env PublicAuthPolicy c = Inr True"
| "policyAuthorize env AuthenticatedAuthPolicy c = Inr (user c \<noteq> None)"
| "policyAuthorize env ReadonlyAuthPolicy c = Inr False"
| "policyAuthorize env WriteonlyAuthPolicy c = Inr False"
| "policyAuthorize env (EntityAuthPolicy n entity authorizer) c =
     (case getEntity env c of
        Inl e \<Rightarrow> Inl e
      | Inr provider \<Rightarrow>
          (case authorizer c (snd provider) of
             Inr b \<Rightarrow> Inr b
           | Inl e \<Rightarrow>
               (case getErrorLocation (metadataCurrent c) of
                  Inl te \<Rightarrow> Inl te
                | Inr loc \<Rightarrow> Inl (Error (''Error occur inside authorization policy '' @ n
                     @ '' for entity '' @ entity @ '' on '' @ loc @ '' '' @ newline @ '' ''
                     @ thrownMessage e)))))"

text \<open>\<open>conflict(other)\<close>: \<open>other instanceof EntityAuthPolicy\<close> is a match on the constructor.\<close>

fun conflict :: "policy \<Rightarrow> policy \<Rightarrow> bool" where
  "conflict (EntityAuthPolicy n entity f) (EntityAuthPolicy n' entity' f') =
     (n = n' \<and> entity = entity')"
| "conflict p other = (policyName p = policyName other)"

section \<open>PolicyAuthorizer\<close>

text \<open>
  The inner loop of \<open>PolicyAuthorizer.authorize\<close>, over the requested keys, for one policy:
  \<open>Inr True\<close> is \<open>return true\<close>, \<open>Inr False\<close> is falling out of the loop.
\<close>

fun keysLoop ::
  "classes \<Rightarrow> policy \<Rightarrow> string list \<Rightarrow> authctx \<Rightarrow> (string \<times> jsval) list
     \<Rightarrow> (error + bool) \<times> (string \<times> jsval) list" where
  "keysLoop env authPolicy [] c tr = (Inr False, tr)"
| "keysLoop env authPolicy (k # ks) c tr =
     (case policyEquals env authPolicy k c of
        Inl e \<Rightarrow> (Inl e, tr)
      | Inr False \<Rightarrow> keysLoop env authPolicy ks c tr
      | Inr True \<Rightarrow>
          (case policyAuthorize env authPolicy c of
             Inl e \<Rightarrow> (Inl e, tr @ [(policyName authPolicy, val c)])
           | Inr True \<Rightarrow> (Inr True, tr @ [(policyName authPolicy, val c)])
           | Inr False \<Rightarrow> keysLoop env authPolicy ks c (tr @ [(policyName authPolicy, val c)])))"

text \<open>The outer loop, over the policy classes in the order given.\<close>

fun policiesLoop ::
  "classes \<Rightarrow> policy list \<Rightarrow> string list \<Rightarrow> authctx \<Rightarrow> (string \<times> jsval) list
     \<Rightarrow> (error + bool) \<times> (string \<times> jsval) list" where
  "policiesLoop env [] keys c tr = (Inr False, tr)"
| "policiesLoop env (p # ps) keys c tr =
     (case keysLoop env p keys c tr of
        (Inl e, tr') \<Rightarrow> (Inl e, tr')
      | (Inr True, tr') \<Rightarrow> (Inr True, tr')
      | (Inr False, tr') \<Rightarrow> policiesLoop env ps keys c tr')"

text \<open>
  \<open>PolicyAuthorizer.authorize\<close>, for the authorizer built on the shared array with the given
  keys. \<open>this.policies.reverse()\<close> reverses the array in place and returns it; the loop runs
  over the reversed array, and the array stays reversed whatever the outcome.
\<close>

definition PolicyAuthorizer_authorize ::
  "classes \<Rightarrow> string list \<Rightarrow> authctx \<Rightarrow> state \<Rightarrow> (error + bool) \<times> state" where
  "PolicyAuthorizer_authorize env keys c s =
     (let reversed = rev (authPolicies s);
          (r, tr) = policiesLoop env reversed keys c (invoked s)
      in (r, s\<lparr>authPolicies := reversed, invoked := tr\<rparr>))"

text \<open>
  \<open>executeAuthorizer\<close>, on the decorators' flattened policy names; a single decorator is the
  list of that one decorator.
\<close>

definition executeAuthorizer ::
  "classes \<Rightarrow> authorizeDecorator list \<Rightarrow> authctx \<Rightarrow> state \<Rightarrow> (error + bool) \<times> state" where
  "executeAuthorizer env decorator info s =
     PolicyAuthorizer_authorize env (concat (map policies decorator)) info s"

section \<open>Controller or action authorization\<close>

definition fixContext :: "authorizeDecorator \<Rightarrow> authctx \<Rightarrow> authctx" where
  "fixContext decorator info =
     (let info1 =
        (if location decorator = LClass
         then info\<lparr>metadataCurrent :=
                Some \<lparr>ckind = KClass, cname = controllerName (route (ctx info)), cparent = None\<rparr>\<rparr>
         else info)
      in if location decorator = LMethod
         then info1\<lparr>metadataCurrent :=
                Some \<lparr>ckind = KMethod, cname = actionName (route (ctx info)),
                      cparent = Some (controllerName (route (ctx info)))\<rparr>\<rparr>
         else info1)"

text \<open>
  \<open>Promise.all(decorators.map(x => executeAuthorizer(x, fixContext(x, info))))\<close>. The calls are
  modelled as running one after the other to completion, left to right, on the one \<open>info\<close>
  object that \<open>fixContext\<close> updates; the first failure is the failure of the whole. (The
  interleaving of several pending calls at their \<open>await\<close> points is not modelled; with at most
  one decorator there is none.)
\<close>

fun routeConditions ::
  "classes \<Rightarrow> authorizeDecorator list \<Rightarrow> authctx \<Rightarrow> state \<Rightarrow> (error + bool list) \<times> state" where
  "routeConditions env [] info s = (Inr [], s)"
| "routeConditions env (x # xs) info s =
     (case executeAuthorizer env [x] (fixContext x info) s of
        (Inl e, s1) \<Rightarrow> (Inl e, s1)
      | (Inr b, s1) \<Rightarrow>
          (case routeConditions env xs (fixContext x info) s1 of
             (Inl e, s2) \<Rightarrow> (Inl e, s2)
           | (Inr bs, s2) \<Rightarrow> (Inr (b # bs), s2)))"

definition checkUserAccessToRoute ::
  "classes \<Rightarrow> authorizeDecorator list \<Rightarrow> authctx \<Rightarrow> state \<Rightarrow> (error + unit) \<times> state" where
  "checkUserAccessToRoute env ds info s =
     (case routeConditions env ds info s of
        (Inl e, s1) \<Rightarrow> (Inl e, s1)
      | (Inr conditions, s1) \<Rightarrow>
          if True \<in> set conditions then (Inr (), s1)
          else (Inl (throwAuthError info None), s1))"

section \<open>Parameter authorization\<close>

record paramCheckContext =
  pcPath :: "string list"
  pcInfo :: authctx
  pcParent :: cls
  pcParentValue :: jsval

definition createContext :: "paramCheckContext \<Rightarrow> jsval \<Rightarrow> reflection \<Rightarrow> authctx" where
  "createContext pc v meta =
     (pcInfo pc)\<lparr>val := v, parentValue := pcParentValue pc,
        metadataCurrent := Some \<lparr>ckind = kind meta, cname = name meta, cparent = Some (pcParent pc)\<rparr>\<rparr>"

text \<open>
  The write-decorator block of \<open>checkParameter\<close>: the verdict of the authorizer when the
  reflection carries write-scoped decorators; without them the block is skipped and the walk
  goes on as after an allowing verdict.
\<close>

definition writeCheck ::
  "classes \<Rightarrow> reflection \<Rightarrow> jsval \<Rightarrow> paramCheckContext \<Rightarrow> state \<Rightarrow> (error + bool) \<times> state" where
  "writeCheck env meta v pc s =
     (let ds = authorizeDecorators (\<lambda>x. access x = Write) (decorators meta) in
      if length ds > 0 then executeAuthorizer env ds (createContext pc v meta) s
      else (Inr True, s))"

text \<open>
  The elements \<open>value[0] .. value[value.length - 1]\<close>: those of an array, the characters of a
  string; numbers, booleans and plain objects have no \<open>length\<close>, so the loop body never runs.
\<close>

fun elementsOf :: "jsval \<Rightarrow> jsval list" where
  "elementsOf (Arr xs) = xs"
| "elementsOf (Str cs) = map (\<lambda>ch. Str [ch]) cs"
| "elementsOf v = []"

text \<open>\<open>value[x.name]\<close> on a value that is neither \<open>null\<close> nor \<open>undefined\<close>.\<close>

definition propertyOf :: "jsval \<Rightarrow> string \<Rightarrow> jsval" where
  "propertyOf v n = (case getProp v n of Inl e \<Rightarrow> Undefined | Inr x \<Rightarrow> x)"

text \<open>The measure of the walk: the size of a present value, and the largest of a list.\<close>

definition weight :: "jsval \<Rightarrow> nat" where
  "weight v = (if v = Undefined \<or> v = Null then 0 else Suc (size v))"

fun maxWeight :: "jsval list \<Rightarrow> nat" where
  "maxWeight [] = 0"
| "maxWeight (v # vs) = max (weight v) (maxWeight vs)"

lemma weight_le_maxWeight: "x \<in> set xs \<Longrightarrow> weight x \<le> maxWeight xs"
  by (induction xs) auto

lemma maxWeight_less: "(\<And>x. x \<in> set xs \<Longrightarrow> weight x < n) \<Longrightarrow> 0 < n \<Longrightarrow> maxWeight xs < n"
  by (induction xs) auto

lemma maxWeight_le: "(\<And>x. x \<in> set xs \<Longrightarrow> weight x \<le> n) \<Longrightarrow> maxWeight xs \<le> n"
  by (induction xs) auto

lemma size_map_of: "map_of kvs n = Some x \<Longrightarrow> size x < size (Obj c kvs)"
  by (induction kvs) (auto split: if_splits)

lemma weight_propertyOf: "v \<noteq> Undefined \<Longrightarrow> v \<noteq> Null \<Longrightarrow> weight (propertyOf v n) < weight v"
  by (cases v) (auto simp: weight_def propertyOf_def dest: size_map_of split: option.splits)

lemma size_element: "x \<in> set xs \<Longrightarrow> size x < size (Arr xs)"
  by (induction xs) auto

lemma weight_elementsOf: "x \<in> set (elementsOf v) \<Longrightarrow> weight x \<le> weight v"
  by (cases v) (auto simp: weight_def dest: size_element)

lemma maxWeight_tl: "maxWeight (tl vs) \<le> maxWeight vs"
  by (cases vs) auto

lemma maxWeight_elementsOf: "maxWeight (elementsOf v) \<le> weight v"
  by (rule maxWeight_le) (rule weight_elementsOf)

lemma maxWeight_properties:
  assumes "v \<noteq> Undefined" and "v \<noteq> Null"
  shows "maxWeight (map (\<lambda>x. propertyOf v (name x)) ps) < weight v"
proof (rule maxWeight_less)
  show "weight x < weight v" if "x \<in> set (map (\<lambda>x. propertyOf v (name x)) ps)" for x
    using that assms by (auto simp: weight_propertyOf)
next
  show "0 < weight v"
    using assms by (simp add: weight_def)
qed

lemma weight_first: "weight (case vs of [] \<Rightarrow> Undefined | x # xs \<Rightarrow> x) \<le> maxWeight vs"
  by (cases vs) (auto simp: weight_def)

text \<open>
  \<open>checkParameter\<close>, the loop over the elements of an array-typed value (\<open>checkItems\<close>, at
  index \<open>i\<close>), and \<open>checkParameters\<close>, where \<open>value[i]\<close> beyond the end of \<open>value\<close> is
  \<open>undefined\<close>.
\<close>

function checkParameter ::
    "classes \<Rightarrow> reflection \<Rightarrow> jsval \<Rightarrow> paramCheckContext \<Rightarrow> state \<Rightarrow> (error + string list) \<times> state"
  and checkItems ::
    "classes \<Rightarrow> reflection \<Rightarrow> jsval list \<Rightarrow> nat \<Rightarrow> paramCheckContext \<Rightarrow> state
       \<Rightarrow> (error + string list) \<times> state"
  and checkParameters ::
    "classes \<Rightarrow> reflection list \<Rightarrow> jsval list \<Rightarrow> paramCheckContext \<Rightarrow> state
       \<Rightarrow> (error + string list) \<times> state"
where
  "checkParameter env meta v pc s =
     (if v = Undefined \<or> v = Null then (Inr [], s)
      else if httpMethod (ctx (pcInfo pc)) = ''GET'' then (Inr [], s)
      else
        (case writeCheck env meta v pc s of
           (Inl e, s1) \<Rightarrow> (Inl e, s1)
         | (Inr False, s1) \<Rightarrow> (Inr [join ''.'' (pcPath pc)], s1)
         | (Inr True, s1) \<Rightarrow>
             if Relation \<in> set (decorators meta) then (Inr [], s1)
             else
               (case type meta of
                  TArray t \<Rightarrow> checkItems env (meta\<lparr>type := t\<rparr>) (elementsOf v) 0 pc s1
                | TClass c \<Rightarrow>
                    checkParameters env (reflect env c)
                      (map (\<lambda>x. propertyOf v (name x)) (reflect env c))
                      (pc\<lparr>pcParent := c, pcParentValue := v\<rparr>) s1
                | TPrim n \<Rightarrow> (Inr [], s1))))"
| "checkItems env meta [] i pc s = (Inr [], s)"
| "checkItems env meta (x # xs) i pc s =
     (case checkParameter env meta x (pc\<lparr>pcPath := pcPath pc @ [toString i]\<rparr>) s of
        (Inl e, s1) \<Rightarrow> (Inl e, s1)
      | (Inr issues, s1) \<Rightarrow>
          (case checkItems env meta xs (Suc i) pc s1 of
             (Inl e, s2) \<Rightarrow> (Inl e, s2)
           | (Inr result, s2) \<Rightarrow> (Inr (issues @ result), s2)))"
| "checkParameters env [] vs pc s = (Inr [], s)"
| "checkParameters env (prop # ms) vs pc s =
     (case checkParameter env prop (case vs of [] \<Rightarrow> Undefined | x # xs \<Rightarrow> x)
             (pc\<lparr>pcPath := pcPath pc @ [name prop]\<rparr>) s of
        (Inl e, s1) \<Rightarrow> (Inl e, s1)
      | (Inr issues, s1) \<Rightarrow>
          (case checkParameters env ms (tl vs) pc s1 of
             (Inl e, s2) \<Rightarrow> (Inl e, s2)
           | (Inr result, s2) \<Rightarrow> (Inr (issues @ result), s2)))"
  by pat_completeness auto

termination
  apply (relation "inv_image (less_than <*lex*> less_than <*lex*> less_than)
    (\<lambda>x. case x of
       Inl (env, meta, v, pc, s) \<Rightarrow> (2 * weight v, 2 * size (type meta) + 1, 0)
     | Inr (Inl (env, meta, xs, i, pc, s)) \<Rightarrow> (2 * maxWeight xs, 2 * size (type meta) + 2, length xs)
     | Inr (Inr (env, ms, vs, pc, s)) \<Rightarrow> (2 * maxWeight vs + 1, 0, length ms))")
  subgoal by (intro wf_inv_image wf_lex_prod wf_less_than)
  subgoal for env meta v pc s x y b c using maxWeight_properties [of v "reflect env c"] by auto
  subgoal for env meta v using maxWeight_elementsOf [of v] by auto
  subgoal by auto
  subgoal by auto
  subgoal for env p ps bound using weight_first [of bound] by auto
  subgoal for env p ps bound using maxWeight_tl [of bound] by auto
  done

definition checkUserAccessToParameters ::
  "classes \<Rightarrow> reflection list \<Rightarrow> jsval list \<Rightarrow> authctx \<Rightarrow> state \<Rightarrow> (error + unit) \<times> state" where
  "checkUserAccessToParameters env meta values info s =
     (case checkParameters env meta values
             \<lparr>pcPath = [], pcInfo = info, pcParent = controllerName (route (ctx info)),
              pcParentValue = Undefined\<rparr> s of
        (Inl e, s1) \<Rightarrow> (Inl e, s1)
      | (Inr unauthorizedPaths, s1) \<Rightarrow>
          if length unauthorizedPaths > 0
          then (Inl (throwAuthError info
                  (Some (''Unauthorized to populate parameter paths (''
                     @ join '', '' unauthorizedPaths @ '')''))), s1)
          else (Inr (), s1))"

section \<open>Response authorization\<close>

text \<open>A property's \<open>authorizer\<close>: \<open>boolean | Authorizer\<close>, a \<open>PolicyAuthorizer\<close> being given by its keys.\<close>

datatype authorizer = Always bool | ByPolicies "string list"

text \<open>
  \<open>FilterNode\<close>; a property of a class node carries its name, its \<open>meta\<close> (the reflection
  with \<open>parent\<close>), its authorizer and its child node.
\<close>

datatype filterNode =
    ValueNode
  | ArrayNode filterNode
  | ClassNode "propertyNode list"
and propertyNode =
    PropertyNode string current authorizer filterNode

definition createPropertyNode :: "reflection \<Rightarrow> string \<times> authorizer" where
  "createPropertyNode prop =
     (let ds = authorizeDecorators (\<lambda>x. access x = Read) (decorators prop);
          ps = concat (map policies ds)
      in (name prop, if length ps = 0 then Always True else ByPolicies ps))"

lemma reflect_nonempty: "p \<in> set (reflect env c) \<Longrightarrow> c \<in> fst ` set env"
proof (rule ccontr)
  assume "p \<in> set (reflect env c)" and "c \<notin> fst ` set env"
  then show False
    by (simp add: reflect_def map_of_eq_None_iff [THEN iffD2])
qed

lemma card_parentTypes:
  "c \<in> fst ` set env \<Longrightarrow> c \<notin> set parentTypes \<Longrightarrow>
     card (fst ` set env - set (parentTypes @ [c])) < card (fst ` set env - set parentTypes)"
  by (intro psubset_card_mono) auto

text \<open>
  \<open>compileType\<close>. Its context argument only reaches \<open>createPropertyNode\<close>, which takes from it
  the reference to the shared policy array, so the model does without it.
\<close>

function compileType :: "classes \<Rightarrow> ty \<Rightarrow> cls list \<Rightarrow> filterNode" where
  "compileType env (TArray t) parentTypes = ArrayNode (compileType env t parentTypes)"
| "compileType env (TClass c) parentTypes =
     (if c \<in> set parentTypes then ClassNode []
      else ClassNode
        (map (\<lambda>prop.
            PropertyNode (fst (createPropertyNode prop))
              \<lparr>ckind = kind prop, cname = name prop, cparent = Some c\<rparr>
              (snd (createPropertyNode prop))
              (compileType env (type prop) (parentTypes @ [c])))
          (reflect env c)))"
| "compileType env (TPrim n) parentTypes = ValueNode"
  by pat_completeness auto

termination
  apply (relation "inv_image (less_than <*lex*> less_than)
    (\<lambda>(env, t, parentTypes). (card (fst ` set env - set parentTypes), size t))")
  subgoal by (intro wf_inv_image wf_lex_prod wf_less_than)
  subgoal by simp
  subgoal for env c parentTypes p
    using reflect_nonempty [of p env c] card_parentTypes [of c env parentTypes]
    by auto
  done

fun getAuthorize :: "classes \<Rightarrow> authorizer \<Rightarrow> authctx \<Rightarrow> state \<Rightarrow> (error + bool) \<times> state" where
  "getAuthorize env (Always b) c s = (Inr b, s)"
| "getAuthorize env (ByPolicies ks) c s = PolicyAuthorizer_authorize env ks c s"

text \<open>\<open>raw.constructor.name\<close> of a value that is neither \<open>null\<close> nor \<open>undefined\<close>.\<close>

fun constructorName :: "jsval \<Rightarrow> string" where
  "constructorName (Bool b) = ''Boolean''"
| "constructorName (Num n) = ''Number''"
| "constructorName (Str cs) = ''String''"
| "constructorName (Arr xs) = ''Array''"
| "constructorName (Obj c kvs) = c"
| "constructorName v = []"

text \<open>
  The error of an array node on a raw value that is no array; reading \<open>constructor\<close> of
  \<open>null\<close> or \<open>undefined\<close> is a \<open>TypeError\<close> instead.
\<close>

definition notArrayError :: "authctx \<Rightarrow> jsval \<Rightarrow> error" where
  "notArrayError c raw =
     (if raw = Undefined \<or> raw = Null then TypeError
      else Error (''Action '' @ controllerName (route (ctx c)) @ ''.'' @ actionName (route (ctx c))
             @ '' expecting return value of type Array but got '' @ constructorName raw))"

text \<open>\<open>result[name] = val\<close> on the result object.\<close>

fun setProp :: "string \<Rightarrow> jsval \<Rightarrow> (string \<times> jsval) list \<Rightarrow> (string \<times> jsval) list" where
  "setProp n v [] = [(n, v)]"
| "setProp n v ((k, x) # kvs) = (if k = n then (k, v) # kvs else (k, x) # setProp n v kvs)"

text \<open>\<open>ctx.ctx.config.responseTransformer ?? ((a, b) => b)\<close>.\<close>

definition transform :: "authctx \<Rightarrow> current \<Rightarrow> jsval \<Rightarrow> jsval" where
  "transform c meta candidate =
     (case responseTransformer (ctx c) of None \<Rightarrow> candidate | Some f \<Rightarrow> f meta candidate)"

text \<open>
  \<open>filterType\<close>, with its loop over the items of an array (\<open>filterItems\<close>) and its loop over
  the properties of a class node (\<open>filterProperties\<close>), each carrying the \<open>result\<close> built so far.
\<close>

function filterType ::
    "classes \<Rightarrow> jsval \<Rightarrow> filterNode \<Rightarrow> authctx \<Rightarrow> state \<Rightarrow> (error + jsval) \<times> state"
  and filterItems ::
    "classes \<Rightarrow> jsval list \<Rightarrow> filterNode \<Rightarrow> authctx \<Rightarrow> jsval list \<Rightarrow> state
       \<Rightarrow> (error + jsval list) \<times> state"
  and filterProperties ::
    "classes \<Rightarrow> propertyNode list \<Rightarrow> jsval \<Rightarrow> authctx \<Rightarrow> (string \<times> jsval) list \<Rightarrow> state
       \<Rightarrow> (error + (string \<times> jsval) list) \<times> state"
where
  "filterType env raw (ArrayNode child) c s =
     (case raw of
        Arr items \<Rightarrow>
          (case filterItems env items child c [] s of
             (Inl e, s1) \<Rightarrow> (Inl e, s1)
           | (Inr result, s1) \<Rightarrow> (Inr (if length result = 0 then Undefined else Arr result), s1))
      | _ \<Rightarrow> (Inl (notArrayError c raw), s))"
| "filterType env raw (ClassNode props) c s =
     (case filterProperties env props raw c [] s of
        (Inl e, s1) \<Rightarrow> (Inl e, s1)
      | (Inr result, s1) \<Rightarrow>
          (Inr (if length result = 0 then Undefined else Obj ''Object'' result), s1))"
| "filterType env raw ValueNode c s = (Inr raw, s)"
| "filterItems env [] child c result s = (Inr result, s)"
| "filterItems env (item # items) child c result s =
     (case filterType env item child c s of
        (Inl e, s1) \<Rightarrow> (Inl e, s1)
      | (Inr v, s1) \<Rightarrow>
          filterItems env items child c (if v \<noteq> Undefined then result @ [v] else result) s1)"
| "filterProperties env [] raw c result s = (Inr result, s)"
| "filterProperties env (PropertyNode n meta auth t # props) raw c result s =
     (case getProp raw n of
        Inl e \<Rightarrow> (Inl e, s)
      | Inr v \<Rightarrow>
          if v = Null \<or> v = Undefined then filterProperties env props raw c result s
          else
            (case getAuthorize env auth
                    (c\<lparr>val := v, parentValue := raw, metadataCurrent := Some meta\<rparr>) s of
               (Inl e, s1) \<Rightarrow> (Inl e, s1)
             | (Inr False, s1) \<Rightarrow> filterProperties env props raw c result s1
             | (Inr True, s1) \<Rightarrow>
                 (case filterType env v t c s1 of
                    (Inl e, s2) \<Rightarrow> (Inl e, s2)
                  | (Inr candidate, s2) \<Rightarrow>
                      filterProperties env props raw c
                        (if transform c meta candidate \<noteq> Undefined
                         then setProp n (transform c meta candidate) result else result) s2)))"
  by pat_completeness auto
termination
  by (relation "inv_image (less_than <*lex*> less_than)
    (\<lambda>x. case x of
       Inl (env, raw, node, c, s) \<Rightarrow> (size node, 0)
     | Inr (Inl (env, items, child, c, result, s)) \<Rightarrow> (size child, Suc (length items))
     | Inr (Inr (env, props, raw, c, result, s)) \<Rightarrow> (size_list size props, Suc (length props)))")
    auto

record actionResult =
  status :: nat
  body :: jsval

text \<open>Truthiness of a value.\<close>

fun truthy :: "jsval \<Rightarrow> bool" where
  "truthy Undefined = False"
| "truthy Null = False"
| "truthy (Bool b) = b"
| "truthy (Num n) = (n \<noteq> 0)"
| "truthy (Str cs) = (cs \<noteq> [])"
| "truthy v = True"

text \<open>
  \<open>responseAuthorize\<close>. The declared type (\<open>getType(responseType) ?? returnType\<close>) is the
  type of the first response-type decorator of the action, else the action's return type;
  nothing is filtered for the type \<open>Promise\<close>, a missing type, a status other than 200 or a
  falsy body.
\<close>

definition declaredType :: "routeInfo \<Rightarrow> ty option" where
  "declaredType r =
     (case find (\<lambda>x. case x of ResponseType t \<Rightarrow> True | _ \<Rightarrow> False) (actionDecorators r) of
        Some (ResponseType t) \<Rightarrow> Some t
      | _ \<Rightarrow> actionReturnType r)"

definition responseAuthorize ::
  "classes \<Rightarrow> actionResult \<Rightarrow> actionContext \<Rightarrow> state \<Rightarrow> (error + actionResult) \<times> state" where
  "responseAuthorize env raw c s =
     (case declaredType (route c) of
        None \<Rightarrow> (Inr raw, s)
      | Some t \<Rightarrow>
          if t \<noteq> TPrim ''Promise'' \<and> status raw = 200 \<and> truthy (body raw) then
            (let info = createAuthContext c Read;
                 node = compileType env t []
             in if body raw = Arr [] then (Inr (raw\<lparr>body := Arr []\<rparr>), s)
                else
                  (case filterType env (body raw) node info s of
                     (Inl e, s1) \<Rightarrow> (Inl e, s1)
                   | (Inr b, s1) \<Rightarrow> (Inr (raw\<lparr>body := b\<rparr>), s1)))
          else (Inr raw, s))"

section \<open>Middleware\<close>

text \<open>
  \<open>checkAuthorize\<close>. The parameter check receives a copy of \<open>info\<close> as \<open>fixContext\<close> left it
  after the route decorators, with access \<open>write\<close>.
\<close>

definition checkAuthorize :: "classes \<Rightarrow> actionContext \<Rightarrow> state \<Rightarrow> (error + unit) \<times> state" where
  "checkAuthorize env c s =
     (if enableAuthorization c then
        (let info = createAuthContext c Route;
             decorator = getRouteAuthorizeDecorators (route c) (globalAuthorizations c)
         in case checkUserAccessToRoute env decorator info s of
              (Inl e, s1) \<Rightarrow> (Inl e, s1)
            | (Inr u, s1) \<Rightarrow>
                checkUserAccessToParameters env (actionParameters (route c)) (parameters c)
                  ((foldl (\<lambda>i d. fixContext d i) info decorator)\<lparr>ctxAccess := Write\<rparr>) s1)
      else (Inr (), s))"

section \<open>Application setup\<close>



section \<open>Vocabulary of the properties\<close>

text \<open>
  A value is present when it is neither \<open>undefined\<close> nor \<open>null\<close>. A record of calls grows
  into another when the second is the first followed by calls on present values only, and a
  state extends another when its record of calls has grown so. \<open>noHttp\<close> holds of a result
  that is not an \<open>HttpStatusError\<close>; \<open>ok\<close> joins the two for one step of a walk.
\<close>

definition present :: "jsval \<Rightarrow> bool" where
  "present v = (v \<noteq> Undefined \<and> v \<noteq> Null)"

definition grows :: "(string \<times> jsval) list \<Rightarrow> (string \<times> jsval) list \<Rightarrow> bool" where
  "grows tr tr' =
     (take (length tr) tr' = tr \<and> list_all (\<lambda>e. present (snd e)) (drop (length tr) tr'))"

definition extends :: "state \<Rightarrow> state \<Rightarrow> bool" where
  "extends s s' = grows (invoked s) (invoked s')"

fun noHttp :: "error + 'a \<Rightarrow> bool" where
  "noHttp (Inl (HttpStatusError st m)) = False"
| "noHttp r = True"

definition ok :: "state \<Rightarrow> (error + 'a) \<times> state \<Rightarrow> bool" where
  "ok s r = (noHttp (fst r) \<and> extends s (snd r))"

section \<open>Example configurations\<close>

text \<open>
  The fixtures of the properties below, after the repository's tests: a controller action
  without decorators, a user with the role \<open>user\<close>, policies that allow, deny by role, or
  throw, and an action that is an entity policy provider.
\<close>

definition exampleRoute :: routeInfo where
  "exampleRoute =
     \<lparr>controllerName = ''AnimalController'', controllerDecorators = [],
      actionName = ''save'', actionDecorators = [], actionParameters = [],
      actionReturnType = None\<rparr>"

definition exampleRequest :: "(string \<times> jsval) list option \<Rightarrow> actionContext" where
  "exampleRequest u =
     \<lparr>route = exampleRoute, stateUser = u, parameters = [], httpMethod = ''POST'',
      enableAuthorization = True, globalAuthorizations = None,
      responseTransformer = None\<rparr>"

definition exampleUser :: "(string \<times> jsval) list option" where
  "exampleUser = Some [(''role'', Str ''user'')]"

definition exampleState :: "policy list \<Rightarrow> state" where
  "exampleState ps = \<lparr>authPolicies = ps, invoked = []\<rparr>"

definition rolePolicy :: "string \<Rightarrow> policy" where
  "rolePolicy r =
     CustomAuthPolicy r
       (\<lambda>c. Inr (case user c of None \<Rightarrow> False | Some u \<Rightarrow> map_of u ''role'' = Some (Str r)))"

definition throwingPolicy :: policy where
  "throwingPolicy = CustomAuthPolicy ''a'' (\<lambda>c. Inl (ErrorObject ''Error: boom''))"

definition allowingPolicy :: policy where
  "allowingPolicy = CustomAuthPolicy ''b'' (\<lambda>c. Inr True)"

definition routeAB :: authorizeDecorator where
  "routeAB = \<lparr>policies = [''a'', ''b''], access = Route, tag = ''a|b'', location = LMethod\<rparr>"

definition shopRoute :: routeInfo where
  "shopRoute =
     \<lparr>controllerName = ''ShopsController'', controllerDecorators = [],
      actionName = ''get'', actionDecorators = [EntityPolicyProvider ''Shop'' ''id''],
      actionParameters = [\<lparr>kind = KParameter, name = ''id'', type = TPrim ''Number'', decorators = []\<rparr>],
      actionReturnType = None\<rparr>"

definition shopContext :: authctx where
  "shopContext =
     fixContext \<lparr>policies = [''ShopOwner''], access = Route, tag = ''ShopOwner'', location = LMethod\<rparr>
       (createAuthContext
          \<lparr>route = shopRoute, stateUser = exampleUser, parameters = [Num 1], httpMethod = ''GET'',
           enableAuthorization = True, globalAuthorizations = None,
           responseTransformer = None\<rparr> Route)"

definition adminRoute :: authorizeDecorator where
  "adminRoute = \<lparr>policies = [''admin''], access = Route, tag = ''admin'', location = LMethod\<rparr>"

definition writeAdmin :: decorator where
  "writeAdmin =
     Authorize \<lparr>policies = [''admin''], access = Write, tag = ''admin'', location = LParameter\<rparr>"

definition readAdmin :: decorator where
  "readAdmin =
     Authorize \<lparr>policies = [''admin''], access = Read, tag = ''admin'', location = LParameter\<rparr>"

definition exampleClasses :: classes where
  "exampleClasses =
     [(''Item'',
        [\<lparr>kind = KProperty, name = ''id'', type = TPrim ''Number'', decorators = [writeAdmin]\<rparr>,
         \<lparr>kind = KProperty, name = ''name'', type = TPrim ''String'', decorators = []\<rparr>,
         \<lparr>kind = KProperty, name = ''owner'', type = TClass ''Owner'', decorators = [writeAdmin]\<rparr>,
         \<lparr>kind = KProperty, name = ''secret'', type = TPrim ''String'', decorators = [readAdmin]\<rparr>]),
      (''Owner'',
        [\<lparr>kind = KProperty, name = ''id'', type = TPrim ''Number'', decorators = [writeAdmin]\<rparr>,
         \<lparr>kind = KProperty, name = ''items'', type = TArray (TClass ''Item''), decorators = []\<rparr>])]"

definition dataParameter :: reflection where
  "dataParameter =
     \<lparr>kind = KParameter, name = ''data'', type = TArray (TClass ''Item''), decorators = []\<rparr>"

definition dataValue :: jsval where
  "dataValue =
     Arr [Obj ''Item'' [(''id'', Num 1), (''name'', Str ''x''), (''owner'', Obj ''Owner'' [(''id'', Num 2)])]]"

definition saveRequest :: "(string \<times> jsval) list option \<Rightarrow> actionContext" where
  "saveRequest u =
     \<lparr>route = exampleRoute\<lparr>actionParameters := [dataParameter]\<rparr>, stateUser = u,
      parameters = [dataValue], httpMethod = ''POST'', enableAuthorization = True,
      globalAuthorizations = Some (GString ''Public''), responseTransformer = None\<rparr>"

definition examplePolicies :: "policy list" where
  "examplePolicies = [PublicAuthPolicy, rolePolicy ''admin'', rolePolicy ''user'']"

definition readRequest :: "(string \<times> jsval) list option \<Rightarrow> actionContext" where
  "readRequest u =
     \<lparr>route = exampleRoute\<lparr>actionName := ''get'', actionReturnType := Some (TClass ''Item'')\<rparr>,
      stateUser = u, parameters = [], httpMethod = ''GET'', enableAuthorization = True,
      globalAuthorizations = Some (GString ''Public''), responseTransformer = None\<rparr>"

definition itemValue :: jsval where
  "itemValue =
     Obj ''Item'' [(''id'', Num 1), (''name'', Str ''x''), (''owner'', Obj ''Owner'' [(''id'', Num 2)])]"

definition idProperty :: reflection where
  "idProperty = \<lparr>kind = KProperty, name = ''id'', type = TPrim ''Number'', decorators = [writeAdmin]\<rparr>"

definition itemContext :: paramCheckContext where
  "itemContext =
     \<lparr>pcPath = [''data'', ''0''], pcInfo = createAuthContext (saveRequest exampleUser) Write,
      pcParent = ''Item'', pcParentValue = itemValue\<rparr>"

definition itemProperties :: "propertyNode list" where
  "itemProperties =
     [PropertyNode ''name'' \<lparr>ckind = KProperty, cname = ''name'', cparent = Some ''Item''\<rparr>
        (Always True) ValueNode,
      PropertyNode ''secret'' \<lparr>ckind = KProperty, cname = ''secret'', cparent = Some ''Item''\<rparr>
        (ByPolicies [''admin'']) ValueNode]"





section \<open>Verified properties\<close>

lemmas example_defs = itemProperties_def itemValue_def idProperty_def itemContext_def adminRoute_def writeAdmin_def readAdmin_def exampleClasses_def
  dataParameter_def dataValue_def saveRequest_def examplePolicies_def exampleRoute_def
  exampleRequest_def exampleUser_def exampleState_def rolePolicy_def readRequest_def

lemmas engine_defs = checkAuthorize_def checkUserAccessToRoute_def checkUserAccessToParameters_def
  executeAuthorizer_def PolicyAuthorizer_authorize_def getRouteAuthorizeDecorators_def
  getGlobalDecorators_def createAuthContext_def fixContext_def throwAuthError_def
  Forbidden_def Unauthorized_def writeCheck_def createContext_def reflect_def propertyOf_def
  checkParameter.simps digit_def

lemmas filter_defs = responseAuthorize_def declaredType_def filterType.simps filterItems.simps
  filterProperties.simps createPropertyNode_def transform_def notArrayError_def

declare checkParameter.simps [simp del]

declare filterType.simps [simp del] filterProperties.simps [simp del] filterItems.simps [simp del]

subsection \<open>The policy authorizer and the shared policy array\<close>

lemma authorize_result:
  "fst (PolicyAuthorizer_authorize env ks c s)
     = fst (policiesLoop env (rev (authPolicies s)) ks c (invoked s))"
  by (simp add: PolicyAuthorizer_authorize_def Let_def split: prod.splits)

lemma authorize_policies:
  "authPolicies (snd (PolicyAuthorizer_authorize env ks c s)) = rev (authPolicies s)"
  by (simp add: PolicyAuthorizer_authorize_def Let_def split: prod.splits)

lemma authorize_invoked:
  "invoked (snd (PolicyAuthorizer_authorize env ks c s))
     = snd (policiesLoop env (rev (authPolicies s)) ks c (invoked s))"
  by (simp add: PolicyAuthorizer_authorize_def Let_def split: prod.splits)

text \<open>
  One run of the loops, over the policies in the order given: requested names that match no
  policy leave the result false and invoke nothing; the result is false only if every
  matching policy returned false; and the first policy, in that order, with a matching name
  whose evaluation returns true makes the result true, the policies after it not being
  reached.
\<close>

lemma keysLoop_unmatched:
  "(\<And>k. k \<in> set ks \<Longrightarrow> policyEquals env p k c = Inr False) \<Longrightarrow>
     keysLoop env p ks c tr = (Inr False, tr)"
  by (induction ks) auto

lemma policiesLoop_unmatched:
  "(\<And>p k. p \<in> set ps \<Longrightarrow> k \<in> set ks \<Longrightarrow> policyEquals env p k c = Inr False) \<Longrightarrow>
     policiesLoop env ps ks c tr = (Inr False, tr)"
  by (induction ps) (auto simp: keysLoop_unmatched)

lemma keysLoop_false:
  "keysLoop env p ks c tr = (Inr False, tr') \<Longrightarrow> k \<in> set ks \<Longrightarrow>
     policyEquals env p k c = Inr True \<Longrightarrow> policyAuthorize env p c = Inr False"
  by (induction ks arbitrary: tr) (auto split: sum.splits bool.splits)

lemma policiesLoop_false:
  "policiesLoop env ps ks c tr = (Inr False, tr') \<Longrightarrow> p \<in> set ps \<Longrightarrow> k \<in> set ks \<Longrightarrow>
     policyEquals env p k c = Inr True \<Longrightarrow> policyAuthorize env p c = Inr False"
proof (induction ps arbitrary: tr)
  case Nil
  then show ?case by simp
next
  case (Cons q ps)
  obtain r tr1 where step: "keysLoop env q ks c tr = (r, tr1)"
    by force
  with Cons.prems(1) have r: "r = Inr False" and rest: "policiesLoop env ps ks c tr1 = (Inr False, tr')"
    by (auto split: sum.splits bool.splits)
  show ?case
  proof (cases "p = q")
    case True
    with step r Cons.prems show ?thesis
      by (auto dest: keysLoop_false)
  next
    case False
    with Cons.prems have "p \<in> set ps"
      by simp
    from Cons.IH [OF rest this Cons.prems(3) Cons.prems(4)] show ?thesis .
  qed
qed

lemma policiesLoop_first_true:
  "policiesLoop env before ks c tr = (Inr False, tr1) \<Longrightarrow>
   keysLoop env p ks c tr1 = (Inr True, tr2) \<Longrightarrow>
     policiesLoop env (before @ p # after) ks c tr = (Inr True, tr2)"
proof (induction before arbitrary: tr)
  case Nil
  then show ?case by simp
next
  case (Cons q before)
  obtain r tr' where step: "keysLoop env q ks c tr = (r, tr')"
    by force
  with Cons.prems(1) have "r = Inr False" and "policiesLoop env before ks c tr' = (Inr False, tr1)"
    by (auto split: sum.splits bool.splits)
  with step Cons.IH [OF _ Cons.prems(2)] show ?case
    by simp
qed

text \<open>
  C10. Every call of \<open>PolicyAuthorizer.authorize\<close>, and so every \<open>executeAuthorizer\<close>, leaves
  the shared policy array reversed, whatever its outcome. A check runs its loop over the
  reverse of the array as it finds it; the next check against the same configuration runs
  over the array in the order the first one found it, and puts that order back.
\<close>

theorem authorize_reverses_shared_policies:
  "authPolicies (snd (PolicyAuthorizer_authorize env ks c s)) = rev (authPolicies s)
   \<and> authPolicies (snd (executeAuthorizer env ds c s)) = rev (authPolicies s)
   \<and> fst (executeAuthorizer env ds c s)
       = fst (policiesLoop env (rev (authPolicies s)) (concat (map policies ds)) c (invoked s))
   \<and> fst (executeAuthorizer env ds' c' (snd (executeAuthorizer env ds c s)))
       = fst (policiesLoop env (authPolicies s) (concat (map policies ds')) c'
               (invoked (snd (executeAuthorizer env ds c s))))
   \<and> authPolicies (snd (executeAuthorizer env ds' c' (snd (executeAuthorizer env ds c s))))
       = authPolicies s"
  by (simp add: executeAuthorizer_def authorize_result authorize_policies authorize_invoked)

text \<open>
  C3, at the input where the code departs from it. The policies \<open>a\<close> (whose evaluator throws)
  and \<open>b\<close> (which allows) are registered in this order, and an action requests both. The
  first check of a request evaluates \<open>b\<close>, the last registered, first, and passes. The second
  check, against the array the first one left reversed, evaluates \<open>a\<close>, the first registered,
  first, and fails with the wrapped error of \<open>a\<close>.
\<close>

theorem second_check_runs_in_registration_order:
  "checkUserAccessToRoute [] [routeAB] (createAuthContext (exampleRequest exampleUser) Route)
       (exampleState [throwingPolicy, allowingPolicy])
     = (Inr (), \<lparr>authPolicies = [allowingPolicy, throwingPolicy], invoked = [(''b'', Undefined)]\<rparr>)
   \<and> checkUserAccessToRoute [] [routeAB] (createAuthContext (exampleRequest exampleUser) Route)
       \<lparr>authPolicies = [allowingPolicy, throwingPolicy], invoked = [(''b'', Undefined)]\<rparr>
     = (Inl (Error (''Error occur inside authorization policy a on method AnimalController.save ''
               @ newline @ '' Error: boom'')),
        \<lparr>authPolicies = [throwingPolicy, allowingPolicy],
         invoked = [(''b'', Undefined), (''a'', Undefined)]\<rparr>)"
  by (simp add: checkUserAccessToRoute_def executeAuthorizer_def PolicyAuthorizer_authorize_def
      routeAB_def exampleState_def throwingPolicy_def allowingPolicy_def createAuthContext_def
      fixContext_def exampleRequest_def exampleRoute_def getErrorLocation_def)

subsection \<open>Policies\<close>

text \<open>
  C8. The conflict relation: two entity policies conflict exactly when they have the same
  name and the same bound entity; an entity policy and a custom policy conflict exactly when
  their names are equal, in either direction; two custom policies conflict exactly when their
  names are equal.
\<close>

theorem conflict_relation:
  "conflict (EntityAuthPolicy n e f) (EntityAuthPolicy n' e' f') = (n = n' \<and> e = e')
   \<and> conflict (EntityAuthPolicy n e f) (CustomAuthPolicy n' g) = (n = n')
   \<and> conflict (CustomAuthPolicy n g) (EntityAuthPolicy n' e' f') = (n = n')
   \<and> conflict (CustomAuthPolicy n g) (CustomAuthPolicy n' g') = (n = n')"
  by simp

text \<open>
  C9. An evaluator that throws is rethrown as an \<open>Error\<close> whose message names the policy, for an
  entity policy also the entity, and the location, followed by the stack of the thrown error
  or, for any other thrown value, its text. The location is \<open>class <name>\<close> when the current
  metadata is a class, and \<open><kind> <parent>.<name>\<close>, the kind in lower case, otherwise.
\<close>

theorem policy_error_wrapping:
  "(authorizer c = Inl e \<and> getErrorLocation (metadataCurrent c) = Inr loc \<longrightarrow>
      policyAuthorize env (CustomAuthPolicy n authorizer) c
        = Inl (Error (''Error occur inside authorization policy '' @ n @ '' on '' @ loc
                 @ '' '' @ newline @ '' '' @ thrownMessage e)))
   \<and> (getEntity env c = Inr (provided, i) \<and> entityAuthorizer c i = Inl e
        \<and> getErrorLocation (metadataCurrent c) = Inr loc \<longrightarrow>
      policyAuthorize env (EntityAuthPolicy n entity entityAuthorizer) c
        = Inl (Error (''Error occur inside authorization policy '' @ n @ '' for entity '' @ entity
                 @ '' on '' @ loc @ '' '' @ newline @ '' '' @ thrownMessage e)))
   \<and> getErrorLocation (Some \<lparr>ckind = KClass, cname = m, cparent = p\<rparr>) = Inr (''class '' @ m)
   \<and> (k \<noteq> KClass \<longrightarrow>
        getErrorLocation (Some \<lparr>ckind = k, cname = m, cparent = Some parent\<rparr>)
          = Inr (kindLower k @ '' '' @ parent @ ''.'' @ m))
   \<and> thrownMessage (ErrorObject stack) = stack
   \<and> thrownMessage (NonError text) = text"
  by (simp add: getErrorLocation_def)

theorem policy_error_wrapping_witness:
  "getEntity [] shopContext = Inr (''Shop'', Num 1)
   \<and> getErrorLocation (metadataCurrent shopContext) = Inr ''method ShopsController.get''
   \<and> policyAuthorize [] (CustomAuthPolicy ''ShopOwner'' (\<lambda>c. Inl (NonError ''ERROR''))) shopContext
       = Inl (Error (''Error occur inside authorization policy ShopOwner on method ShopsController.get ''
                @ newline @ '' ERROR''))
   \<and> policyAuthorize [] (EntityAuthPolicy ''ShopOwner'' ''Shop'' (\<lambda>c i. Inl (NonError ''ERROR'')))
         shopContext
       = Inl (Error (''Error occur inside authorization policy ShopOwner for entity Shop on method ShopsController.get ''
                @ newline @ '' ERROR''))"
proof -
  have entity: "getEntity [] shopContext = Inr (''Shop'', Num 1)"
    by (simp add: getEntity_def shopContext_def fixContext_def createAuthContext_def shopRoute_def
        actionParamsGet_def)
  have loc: "getErrorLocation (metadataCurrent shopContext) = Inr ''method ShopsController.get''"
    by (simp add: getErrorLocation_def shopContext_def fixContext_def createAuthContext_def
        shopRoute_def)
  show ?thesis
    using entity loc
      policy_error_wrapping [where authorizer = "\<lambda>c. Inl (NonError ''ERROR'')"
        and entityAuthorizer = "\<lambda>c i. Inl (NonError ''ERROR'')" and c = shopContext
        and e = "NonError ''ERROR''" and loc = "''method ShopsController.get''"
        and env = "[]" and n = "''ShopOwner''" and entity = "''Shop''"
        and provided = "''Shop''" and i = "Num 1" and k = KMethod]
    by simp
qed

subsection \<open>Route access\<close>








subsection \<open>What every walk preserves\<close>

lemma grows_iff:
  "grows tr tr' \<longleftrightarrow> (\<exists>new. tr' = tr @ new \<and> list_all (\<lambda>e. present (snd e)) new)"
proof
  assume "grows tr tr'"
  then have "tr' = tr @ drop (length tr) tr'"
    and "list_all (\<lambda>e. present (snd e)) (drop (length tr) tr')"
    unfolding grows_def by (metis append_take_drop_id, simp)
  then show "\<exists>new. tr' = tr @ new \<and> list_all (\<lambda>e. present (snd e)) new"
    by blast
next
  assume "\<exists>new. tr' = tr @ new \<and> list_all (\<lambda>e. present (snd e)) new"
  then show "grows tr tr'"
    by (auto simp: grows_def)
qed

lemma grows_refl: "grows tr tr"
  by (simp add: grows_def)

lemma grows_trans: "grows a b \<Longrightarrow> grows b c \<Longrightarrow> grows a c"
  by (auto simp: grows_iff)

lemma grows_snoc: "present v \<Longrightarrow> grows tr (tr @ [(n, v)])"
  by (simp add: grows_def)

lemma extends_refl: "extends s s"
  by (simp add: extends_def grows_refl)

lemma extends_trans: "extends a b \<Longrightarrow> extends b c \<Longrightarrow> extends a c"
  unfolding extends_def by (rule grows_trans)

lemma ok_return: "ok s (Inr x, s)"
  by (simp add: ok_def extends_refl)

lemma ok_bind:
  assumes "ok s m" and "\<And>x s1. m = (Inr x, s1) \<Longrightarrow> ok s1 (k x s1)"
  shows "ok s (case m of (Inl e, s1) \<Rightarrow> (Inl e, s1) | (Inr x, s1) \<Rightarrow> k x s1)"
proof (cases m)
  case (Pair r s1)
  show ?thesis
  proof (cases r)
    case (Inl e)
    with Pair assms(1) show ?thesis
      by (cases e) (auto simp: ok_def)
  next
    case (Inr x)
    with Pair assms show ?thesis
      by (auto simp: ok_def dest: extends_trans)
  qed
qed

lemma ok_extend: "ok s (r, s1) \<Longrightarrow> ok s1 m \<Longrightarrow> ok s m"
  by (auto simp: ok_def dest: extends_trans)

lemma getProp_error: "getProp v n = Inl e \<Longrightarrow> e = TypeError"
  by (cases v) (auto split: option.splits)

lemma getEntity_noHttp: "noHttp (getEntity env c)"
  by (auto simp: getEntity_def split: if_splits option.splits decorator.splits sum.splits
      dest: getProp_error)

lemma noHttp_Inl: "noHttp (Inl e :: error + 'a) \<Longrightarrow> noHttp (Inl e :: error + 'b)"
  by (cases e) auto

lemma policyEquals_noHttp: "noHttp (policyEquals env p k c)"
proof (cases p)
  case (EntityAuthPolicy n entity f)
  then show ?thesis
    using getEntity_noHttp [of env c] by (auto split: sum.splits intro: noHttp_Inl)
qed auto

lemma policyAuthorize_noHttp: "noHttp (policyAuthorize env p c)"
proof (cases p)
  case (CustomAuthPolicy n f)
  then show ?thesis
    by (auto simp: getErrorLocation_def split: sum.splits option.splits)
next
  case (EntityAuthPolicy n entity f)
  then show ?thesis
    using getEntity_noHttp [of env c]
    by (auto simp: getErrorLocation_def split: sum.splits option.splits intro: noHttp_Inl)
qed auto

lemma keysLoop_noHttp: "noHttp (fst (keysLoop env p ks c tr))"
proof (induction ks arbitrary: tr)
  case Nil
  then show ?case by simp
next
  case (Cons k ks)
  then show ?case
    using policyEquals_noHttp [of env p k c] policyAuthorize_noHttp [of env p c]
    by (auto split: sum.splits bool.splits intro: noHttp_Inl)
qed

lemma keysLoop_grows: "present (val c) \<Longrightarrow> grows tr (snd (keysLoop env p ks c tr))"
proof (induction ks arbitrary: tr)
  case Nil
  then show ?case by (simp add: grows_refl)
next
  case (Cons k ks)
  have step: "grows tr (tr @ [(policyName p, val c)])"
    using Cons.prems by (rule grows_snoc)
  show ?case
    using Cons step
    by (auto split: sum.splits bool.splits intro: grows_refl grows_trans)
qed

lemma policiesLoop_noHttp: "noHttp (fst (policiesLoop env ps ks c tr))"
proof (induction ps arbitrary: tr)
  case Nil
  then show ?case by simp
next
  case (Cons p ps)
  then show ?case
    using keysLoop_noHttp [of env p ks c tr]
    by (auto split: prod.splits sum.splits bool.splits intro: noHttp_Inl)
qed

lemma policiesLoop_grows: "present (val c) \<Longrightarrow> grows tr (snd (policiesLoop env ps ks c tr))"
proof (induction ps arbitrary: tr)
  case Nil
  then show ?case by (simp add: grows_refl)
next
  case (Cons p ps)
  show ?case
    using Cons keysLoop_grows [of c tr env p ks]
    by (auto split: prod.splits sum.splits bool.splits intro: grows_trans)
qed

lemma authorize_noHttp: "noHttp (fst (PolicyAuthorizer_authorize env ks c s))"
  by (simp add: authorize_result policiesLoop_noHttp)

lemma authorize_ok: "present (val c) \<Longrightarrow> ok s (PolicyAuthorizer_authorize env ks c s)"
  by (simp add: ok_def authorize_noHttp extends_def authorize_invoked policiesLoop_grows)


lemma executeAuthorizer_ok: "present (val c) \<Longrightarrow> ok s (executeAuthorizer env ds c s)"
  by (simp add: executeAuthorizer_def authorize_ok)

lemma executeAuthorizer_noHttp: "noHttp (fst (executeAuthorizer env ds c s))"
  by (simp add: executeAuthorizer_def authorize_noHttp)

lemma routeConditions_noHttp: "noHttp (fst (routeConditions env ds info s))"
proof (induction ds arbitrary: info s)
  case Nil
  then show ?case by simp
next
  case (Cons d ds)
  show ?case
    using executeAuthorizer_noHttp [of env "[d]" "fixContext d info" s] Cons
    by (auto split: prod.splits sum.splits intro: noHttp_Inl)
      (metis fst_conv noHttp_Inl)
qed

lemma writeCheck_ok: "present v \<Longrightarrow> ok s (writeCheck env meta v pc s)"
  by (simp add: writeCheck_def Let_def executeAuthorizer_ok createContext_def ok_return)

lemma checkParameter_ok:
  "ok s (checkParameter env meta v pc s)"
  and checkItems_ok: "ok s (checkItems env meta xs i pc s)"
  and checkParameters_ok: "ok s (checkParameters env ms vs pc s)"
proof (induction env meta v pc s and env meta xs i pc s and env ms vs pc s
    rule: checkParameter_checkItems_checkParameters.induct)
  case (1 env meta v pc s)
  show ?case
  proof (cases "v = Undefined \<or> v = Null \<or> httpMethod (ctx (pcInfo pc)) = ''GET''")
    case True
    then show ?thesis
      by (subst checkParameter.simps) (auto simp: ok_return)
  next
    case False
    then have w: "ok s (writeCheck env meta v pc s)"
      by (simp add: writeCheck_ok present_def)
    have "ok s (case writeCheck env meta v pc s of
           (Inl e, s1) \<Rightarrow> (Inl e, s1)
         | (Inr b, s1) \<Rightarrow>
             (if b then
               if Relation \<in> set (decorators meta) then (Inr [], s1)
               else
                 (case type meta of
                    TArray t \<Rightarrow> checkItems env (meta\<lparr>type := t\<rparr>) (elementsOf v) 0 pc s1
                  | TClass c \<Rightarrow>
                      checkParameters env (reflect env c)
                        (map (\<lambda>x. propertyOf v (name x)) (reflect env c))
                        (pc\<lparr>pcParent := c, pcParentValue := v\<rparr>) s1
                  | TPrim n \<Rightarrow> (Inr [], s1))
              else (Inr [join ''.'' (pcPath pc)], s1)))"
    proof (rule ok_bind [OF w])
      fix b s1
      assume eq: "writeCheck env meta v pc s = (Inr b, s1)"
      show "ok s1 (if b then
               if Relation \<in> set (decorators meta) then (Inr [], s1)
               else
                 (case type meta of
                    TArray t \<Rightarrow> checkItems env (meta\<lparr>type := t\<rparr>) (elementsOf v) 0 pc s1
                  | TClass c \<Rightarrow>
                      checkParameters env (reflect env c)
                        (map (\<lambda>x. propertyOf v (name x)) (reflect env c))
                        (pc\<lparr>pcParent := c, pcParentValue := v\<rparr>) s1
                  | TPrim n \<Rightarrow> (Inr [], s1))
              else (Inr [join ''.'' (pcPath pc)], s1))"
        using "1.IH"(1) [OF _ _ eq [symmetric] refl] "1.IH"(2) [OF _ _ eq [symmetric] refl] False
        by (auto simp: ok_return split: ty.splits)
    qed
    then show ?thesis
      using False
      by (subst checkParameter.simps) (simp add: case_bool_if cong: prod.case_cong sum.case_cong)
  qed
next
  case (2 env meta i pc s)
  show ?case by (simp add: ok_return)
next
  case (3 env meta x xs i pc s)
  show ?case
    apply (simp only: checkItems.simps)
    apply (rule ok_bind [OF "3.IH"(1)])
    subgoal premises eq for issues s1
      apply (rule ok_bind [OF "3.IH"(2) [OF eq [symmetric] refl]])
      apply (rule ok_return)
      done
    done
next
  case (4 env vs pc s)
  show ?case by (simp add: ok_return)
next
  case (5 env p ms vs pc s)
  show ?case
    apply (simp only: checkParameters.simps)
    apply (rule ok_bind [OF "5.IH"(1)])
    subgoal premises eq for issues s1
      apply (rule ok_bind [OF "5.IH"(2) [OF eq [symmetric] refl]])
      apply (rule ok_return)
      done
    done
qed


lemma getAuthorize_ok: "present (val c) \<Longrightarrow> ok s (getAuthorize env auth c s)"
  by (cases auth) (simp_all add: ok_return authorize_ok)

lemma filterType_ok:
  "ok s (filterType env raw node c s)"
  and filterItems_ok: "ok s (filterItems env items child c acc s)"
  and filterProperties_ok: "ok s (filterProperties env props raw c res s)"
proof (induction env raw node c s and env items child c acc s and env props raw c res s
    rule: filterType_filterItems_filterProperties.induct)
  case (1 env raw child c s)
  show ?case
  proof (cases raw)
    case (Arr items)
    show ?thesis
      apply (simp only: filterType.simps Arr jsval.case)
      apply (rule ok_bind [OF "1.IH" [OF Arr]])
      apply (rule ok_return)
      done
  qed (simp_all add: filterType.simps notArrayError_def ok_def extends_refl)
next
  case (2 env raw props c s)
  show ?case
    apply (simp only: filterType.simps)
    apply (rule ok_bind [OF "2.IH"])
    apply (rule ok_return)
    done
next
  case (3 env raw c s)
  show ?case by (simp add: filterType.simps ok_return)
next
  case (4 env child c acc s)
  show ?case by (simp add: filterItems.simps ok_return)
next
  case (5 env item items child c acc s)
  show ?case
    apply (simp only: filterItems.simps)
    apply (rule ok_bind [OF "5.IH"(1)])
    subgoal premises eq for v s1
      by (rule "5.IH"(2) [OF eq [symmetric] refl])
    done
next
  case (6 env raw c res s)
  show ?case by (simp add: filterProperties.simps ok_return)
next
  case (7 env n meta auth t props raw c res s)
  show ?case
  proof (cases "getProp raw n")
    case (Inl e)
    then show ?thesis
      using getProp_error [OF Inl] by (simp add: filterProperties.simps ok_def extends_refl)
  next
    case (Inr v)
    show ?thesis
    proof (cases "v = Null \<or> v = Undefined")
      case True
      then show ?thesis
        using "7.IH"(1) [OF Inr True] Inr by (simp add: filterProperties.simps)
    next
      case False
      let ?c = "c\<lparr>val := v, parentValue := raw, metadataCurrent := Some meta\<rparr>"
      have a: "ok s (getAuthorize env auth ?c s)"
        using False by (intro getAuthorize_ok) (simp add: present_def)
      have "ok s (case getAuthorize env auth ?c s of
                 (Inl e, s1) \<Rightarrow> (Inl e, s1)
               | (Inr b, s1) \<Rightarrow>
                   (if b then
                      (case filterType env v t c s1 of
                         (Inl e, s2) \<Rightarrow> (Inl e, s2)
                       | (Inr candidate, s2) \<Rightarrow>
                           filterProperties env props raw c
                            (if transform c meta candidate \<noteq> Undefined
                             then setProp n (transform c meta candidate) res else res) s2)
                    else filterProperties env props raw c res s1))"
      proof (rule ok_bind [OF a])
        fix b s1
        assume eq: "getAuthorize env auth ?c s = (Inr b, s1)"
        show "ok s1 (if b then
                      (case filterType env v t c s1 of
                         (Inl e, s2) \<Rightarrow> (Inl e, s2)
                       | (Inr candidate, s2) \<Rightarrow>
                           filterProperties env props raw c
                            (if transform c meta candidate \<noteq> Undefined
                             then setProp n (transform c meta candidate) res else res) s2)
                    else filterProperties env props raw c res s1)"
        proof (cases b)
          case True
          have t: "ok s1 (filterType env v t c s1)"
            using "7.IH"(2) [OF Inr False eq [symmetric] refl] True by simp
          show ?thesis
            apply (simp only: True if_True)
            apply (rule ok_bind [OF t])
            subgoal premises eq2 for candidate s2
              using "7.IH"(3) [OF Inr False eq [symmetric] refl _ eq2 [symmetric] refl] True
              by simp
            done
        next
          case False
          then show ?thesis
            using "7.IH"(4) [OF Inr \<open>\<not> (v = Null \<or> v = Undefined)\<close> eq [symmetric] refl]
            by simp
        qed
      qed
      then show ?thesis
        using False Inr
        by (simp add: filterProperties.simps case_bool_if cong: prod.case_cong sum.case_cong)
    qed
  qed
qed

lemma fixContext_user: "user (fixContext d info) = user info"
  by (simp add: fixContext_def Let_def)

lemma fixContext_route: "ctx (fixContext d info) = ctx info"
  by (simp add: fixContext_def Let_def)

lemma foldl_fixContext_user: "user (foldl (\<lambda>i d. fixContext d i) info ds) = user info"
  by (induction ds arbitrary: info) (simp_all add: fixContext_user)

lemma checkUserAccessToRoute_status:
  assumes "checkUserAccessToRoute env ds info s = (Inl (HttpStatusError st m), s1)"
  shows "st = (if user info = None then 403 else 401)"
proof -
  obtain r s' where rc: "routeConditions env ds info s = (r, s')"
    by force
  show ?thesis
  proof (cases r)
    case (Inl e)
    with rc assms routeConditions_noHttp [of env ds info s] show ?thesis
      by (simp add: checkUserAccessToRoute_def)
  next
    case (Inr conditions)
    with rc assms show ?thesis
      by (auto simp: checkUserAccessToRoute_def throwAuthError_def Forbidden_def Unauthorized_def
          split: if_splits)
  qed
qed

lemma checkUserAccessToParameters_status:
  assumes "checkUserAccessToParameters env ms vs info s = (Inl (HttpStatusError st m), s1)"
  shows "st = (if user info = None then 403 else 401)"
proof -
  let ?pc = "\<lparr>pcPath = [], pcInfo = info, pcParent = controllerName (route (ctx info)),
              pcParentValue = Undefined\<rparr>"
  obtain r s' where cp: "checkParameters env ms vs ?pc s = (r, s')"
    by force
  show ?thesis
  proof (cases r)
    case (Inl e)
    with cp assms checkParameters_ok [of s env ms vs ?pc] show ?thesis
      by (simp add: checkUserAccessToParameters_def ok_def)
  next
    case (Inr paths)
    with cp assms show ?thesis
      by (auto simp: checkUserAccessToParameters_def throwAuthError_def Forbidden_def
          Unauthorized_def split: if_splits)
  qed
qed

subsection \<open>Denials\<close>

text \<open>
  C1. An \<open>HttpStatusError\<close> raised by the route check, by the parameter check, or by the two
  in sequence, carries status 403 when the context has no user and 401 when it has one. Both
  checks raise it at a denial: the route check when no decorator's condition is true, with
  the message Forbidden or Unauthorized, and the parameter check when the walk recorded a
  path. The response filter never raises an \<open>HttpStatusError\<close>: a denied property is left out.
\<close>

theorem auth_error_status:
  "(checkUserAccessToRoute env ds info s = (Inl (HttpStatusError st m), t) \<longrightarrow>
      st = (if user info = None then 403 else 401))
   \<and> (checkUserAccessToParameters env ms vs info' s' = (Inl (HttpStatusError st' m'), t') \<longrightarrow>
      st' = (if user info' = None then 403 else 401))
   \<and> (checkAuthorize env actx s'' = (Inl (HttpStatusError st'' m''), t'') \<longrightarrow>
      st'' = (if stateUser actx = None then 403 else 401))
   \<and> (routeConditions env dsA infoA sA = (Inr conditions, tA) \<and> True \<notin> set conditions \<longrightarrow>
      checkUserAccessToRoute env dsA infoA sA
        = (Inl (HttpStatusError (if user infoA = None then 403 else 401)
                  (if user infoA = None then ''Forbidden'' else ''Unauthorized'')), tA))
   \<and> (checkParameters env msB vsB
          \<lparr>pcPath = [], pcInfo = infoB, pcParent = controllerName (route (ctx infoB)),
           pcParentValue = Undefined\<rparr> sB = (Inr paths, tB) \<and> paths \<noteq> [] \<longrightarrow>
      checkUserAccessToParameters env msB vsB infoB sB
        = (Inl (HttpStatusError (if user infoB = None then 403 else 401)
                  (''Unauthorized to populate parameter paths ('' @ join '', '' paths @ '')'')), tB))
   \<and> fst (filterType env raw node c sC) \<noteq> Inl (HttpStatusError stC mC)"
proof -
  have authorize: "st'' = (if stateUser actx = None then 403 else 401)"
    if "checkAuthorize env actx s'' = (Inl (HttpStatusError st'' m''), t'')"
  proof -
    let ?info = "createAuthContext actx Route"
    let ?ds = "getRouteAuthorizeDecorators (route actx) (globalAuthorizations actx)"
    have u: "user ?info = stateUser actx"
      by (simp add: createAuthContext_def)
    obtain r t where rt: "checkUserAccessToRoute env ?ds ?info s'' = (r, t)"
      by force
    show ?thesis
    proof (cases r)
      case (Inl e)
      with rt that have "checkUserAccessToRoute env ?ds ?info s'' = (Inl (HttpStatusError st'' m''), t'')"
        by (simp add: checkAuthorize_def Let_def split: if_splits)
      from checkUserAccessToRoute_status [OF this] u show ?thesis
        by simp
    next
      case (Inr x)
      with rt that have "checkUserAccessToParameters env (actionParameters (route actx))
          (parameters actx) ((foldl (\<lambda>i d. fixContext d i) ?info ?ds)\<lparr>ctxAccess := Write\<rparr>) t
          = (Inl (HttpStatusError st'' m''), t'')"
        by (simp add: checkAuthorize_def Let_def split: if_splits)
      from checkUserAccessToParameters_status [OF this] u show ?thesis
        by (simp add: foldl_fixContext_user)
    qed
  qed
  have filter: "fst (filterType env raw node c sC) \<noteq> Inl (HttpStatusError stC mC)"
    using filterType_ok [of sC env raw node c] by (auto simp: ok_def)
  show ?thesis
    using authorize filter
    by (auto simp: checkUserAccessToRoute_status checkUserAccessToParameters_status
        checkUserAccessToRoute_def checkUserAccessToParameters_def throwAuthError_def
        Forbidden_def Unauthorized_def)
qed

theorem auth_error_status_witness:
  "checkUserAccessToRoute exampleClasses [adminRoute] (createAuthContext (exampleRequest None) Route)
       (exampleState examplePolicies)
     = (Inl (HttpStatusError 403 ''Forbidden''),
        \<lparr>authPolicies = rev examplePolicies, invoked = [(''admin'', Undefined)]\<rparr>)
   \<and> checkUserAccessToRoute exampleClasses [adminRoute]
       (createAuthContext (exampleRequest exampleUser) Route) (exampleState examplePolicies)
     = (Inl (HttpStatusError 401 ''Unauthorized''),
        \<lparr>authPolicies = rev examplePolicies, invoked = [(''admin'', Undefined)]\<rparr>)
   \<and> checkUserAccessToParameters exampleClasses [dataParameter] [dataValue]
       (createAuthContext (saveRequest exampleUser) Write) (exampleState examplePolicies)
     = (Inl (HttpStatusError 401
               ''Unauthorized to populate parameter paths (data.0.id, data.0.owner)''),
        \<lparr>authPolicies = examplePolicies,
         invoked = [(''admin'', Num 1), (''admin'', Obj ''Owner'' [(''id'', Num 2)])]\<rparr>)
   \<and> checkAuthorize exampleClasses (saveRequest None) (exampleState examplePolicies)
     = (Inl (HttpStatusError 403
               ''Unauthorized to populate parameter paths (data.0.id, data.0.owner)''),
        \<lparr>authPolicies = rev examplePolicies,
         invoked = [(''Public'', Undefined), (''admin'', Num 1),
                    (''admin'', Obj ''Owner'' [(''id'', Num 2)])]\<rparr>)"
proof -
  let ?anon = "createAuthContext (exampleRequest None) Route"
  let ?user = "createAuthContext (saveRequest exampleUser) Write"
  let ?s0 = "exampleState examplePolicies"
  let ?s1 = "\<lparr>authPolicies = rev examplePolicies, invoked = [(''admin'', Undefined)]\<rparr>"
  let ?s2 = "\<lparr>authPolicies = examplePolicies,
         invoked = [(''admin'', Num 1), (''admin'', Obj ''Owner'' [(''id'', Num 2)])]\<rparr>"
  have conditions: "routeConditions exampleClasses [adminRoute] ?anon ?s0 = (Inr [False], ?s1)"
    by (simp add: example_defs engine_defs)
  have paths: "checkParameters exampleClasses [dataParameter] [dataValue]
       \<lparr>pcPath = [], pcInfo = ?user, pcParent = controllerName (route (ctx ?user)),
        pcParentValue = Undefined\<rparr> ?s0 = (Inr [''data.0.id'', ''data.0.owner''], ?s2)"
    by (simp add: example_defs engine_defs)
  have signed: "checkUserAccessToRoute exampleClasses [adminRoute]
       (createAuthContext (exampleRequest exampleUser) Route) ?s0
     = (Inl (HttpStatusError 401 ''Unauthorized''), ?s1)"
    by (simp add: example_defs engine_defs)
  have whole: "checkAuthorize exampleClasses (saveRequest None) ?s0
     = (Inl (HttpStatusError 403
               ''Unauthorized to populate parameter paths (data.0.id, data.0.owner)''),
        \<lparr>authPolicies = rev examplePolicies,
         invoked = [(''Public'', Undefined), (''admin'', Num 1),
                    (''admin'', Obj ''Owner'' [(''id'', Num 2)])]\<rparr>)"
    by (simp add: example_defs engine_defs)
  have anon: "user ?anon = None" and user: "user ?user \<noteq> None"
    by (simp_all add: createAuthContext_def exampleRequest_def saveRequest_def exampleUser_def)
  show ?thesis
    using conditions paths signed whole anon user
      auth_error_status [where env = exampleClasses and dsA = "[adminRoute]" and infoA = ?anon
        and sA = ?s0 and conditions = "[False]" and tA = ?s1
        and msB = "[dataParameter]" and vsB = "[dataValue]" and infoB = ?user and sB = ?s0
        and paths = "[''data.0.id'', ''data.0.owner'']" and tB = ?s2
        and actx = "saveRequest None" and s'' = ?s0 and st'' = 403
        and m'' = "''Unauthorized to populate parameter paths (data.0.id, data.0.owner)''"
        and t'' = "\<lparr>authPolicies = rev examplePolicies,
           invoked = [(''Public'', Undefined), (''admin'', Num 1),
                      (''admin'', Obj ''Owner'' [(''id'', Num 2)])]\<rparr>"
        and ds = "[adminRoute]" and info = "createAuthContext (exampleRequest exampleUser) Route"
        and s = ?s0 and st = 401 and m = "''Unauthorized''" and t = ?s1
        and ms = "[dataParameter]" and vs = "[dataValue]" and info' = ?user and s' = ?s0
        and st' = 401
        and m' = "''Unauthorized to populate parameter paths (data.0.id, data.0.owner)''"
        and t' = ?s2]
    by simp
qed

subsection \<open>Absent values\<close>

text \<open>
  C4. In the parameter walk a value that is \<open>undefined\<close> or \<open>null\<close> yields no path and
  leaves the state as it was, so no policy is invoked and nothing below it is visited; in the
  response walk a property whose raw value is \<open>undefined\<close> or \<open>null\<close> is passed over with
  the result and the state unchanged. Through a whole parameter walk and a whole response
  walk the record of calls only grows by calls on present values.
\<close>

theorem absent_values_reach_no_policy:
  "checkParameter env meta Undefined pc s = (Inr [], s)
   \<and> checkParameter env meta Null pc s = (Inr [], s)
   \<and> extends s (snd (checkParameter env meta v pc s))
   \<and> extends s (snd (checkParameters env ms vs pc s))
   \<and> (getProp raw n = Inr Undefined \<or> getProp raw n = Inr Null \<longrightarrow>
        filterProperties env (PropertyNode n cur auth t # props) raw c res s
          = filterProperties env props raw c res s)
   \<and> extends s (snd (filterType env raw node c s))"
  using checkParameter_ok [of s env meta v pc] checkParameters_ok [of s env ms vs pc]
    filterType_ok [of s env raw node c]
  by (auto simp: checkParameter.simps filterProperties.simps ok_def)

theorem absent_values_reach_no_policy_witness:
  "getProp (Obj ''Item'' [(''name'', Str ''x'')]) ''secret'' = Inr Undefined
   \<and> filterProperties exampleClasses
        [PropertyNode ''secret'' \<lparr>ckind = KProperty, cname = ''secret'', cparent = Some ''Item''\<rparr>
           (ByPolicies [''admin'']) ValueNode]
        (Obj ''Item'' [(''name'', Str ''x'')]) (createAuthContext (readRequest exampleUser) Read) []
        (exampleState examplePolicies)
      = (Inr [], exampleState examplePolicies)
   \<and> checkParameter exampleClasses
        \<lparr>kind = KParameter, name = ''id'', type = TPrim ''Number'', decorators = [writeAdmin]\<rparr>
        Undefined
        \<lparr>pcPath = [''id''], pcInfo = createAuthContext (saveRequest exampleUser) Write,
         pcParent = ''AnimalController'', pcParentValue = Undefined\<rparr>
        (exampleState examplePolicies)
      = (Inr [], exampleState examplePolicies)
   \<and> invoked (snd (filterType exampleClasses
        (Obj ''Item'' [(''name'', Str ''x''), (''secret'', Str ''s'')])
        (compileType exampleClasses (TClass ''Item'') [])
        (createAuthContext (readRequest exampleUser) Read) (exampleState examplePolicies)))
      = [(''admin'', Str ''s'')]"
proof -
  have run: "invoked (snd (filterType exampleClasses
        (Obj ''Item'' [(''name'', Str ''x''), (''secret'', Str ''s'')])
        (compileType exampleClasses (TClass ''Item'') [])
        (createAuthContext (readRequest exampleUser) Read) (exampleState examplePolicies)))
      = [(''admin'', Str ''s'')]"
    by (simp add: example_defs engine_defs filter_defs)
  show ?thesis
    using run
      absent_values_reach_no_policy [where env = exampleClasses
        and raw = "Obj ''Item'' [(''name'', Str ''x'')]" and n = "''secret''"
        and cur = "\<lparr>ckind = KProperty, cname = ''secret'', cparent = Some ''Item''\<rparr>"
        and auth = "ByPolicies [''admin'']" and t = ValueNode and props = "[]"
        and c = "createAuthContext (readRequest exampleUser) Read" and res = "[]"
        and s = "exampleState examplePolicies"
        and meta = "\<lparr>kind = KParameter, name = ''id'', type = TPrim ''Number'',
                      decorators = [writeAdmin]\<rparr>"
        and pc = "\<lparr>pcPath = [''id''], pcInfo = createAuthContext (saveRequest exampleUser) Write,
                    pcParent = ''AnimalController'', pcParentValue = Undefined\<rparr>"]
    by (simp add: filterProperties.simps)
qed

subsection \<open>Unauthorized parameter paths\<close>

text \<open>
  C5. When the write-scoped authorizer of a value denies, the walk returns the one path of
  that value, its segments joined by dots, in the state the authorizer left: nothing below
  the value is visited. When it allows, or there is no write decorator, the walk goes on
  into the elements of an array, whose paths take the index as a segment, or into the
  properties of a class, whose paths take the property name. The paths of a parameter or
  element come before those of its later siblings, which are recorded whatever the earlier
  ones gave. A walk that ends with paths raises one error whose message lists them all in
  that order, joined by a comma and a space, with status 403 without a user and 401 with one.
\<close>

theorem denied_paths_are_collected:
  "(v \<noteq> Undefined \<and> v \<noteq> Null \<and> httpMethod (ctx (pcInfo pc)) \<noteq> ''GET''
      \<and> authorizeDecorators (\<lambda>x. access x = Write) (decorators meta) \<noteq> []
      \<and> executeAuthorizer env (authorizeDecorators (\<lambda>x. access x = Write) (decorators meta))
            (createContext pc v meta) s = (Inr False, t) \<longrightarrow>
      checkParameter env meta v pc s = (Inr [join ''.'' (pcPath pc)], t))
   \<and> (v' \<noteq> Undefined \<and> v' \<noteq> Null \<and> httpMethod (ctx (pcInfo pc')) \<noteq> ''GET''
      \<and> writeCheck env meta' v' pc' s' = (Inr True, t') \<and> Relation \<notin> set (decorators meta') \<longrightarrow>
      checkParameter env meta' v' pc' s'
        = (case type meta' of
             TArray ty \<Rightarrow> checkItems env (meta'\<lparr>type := ty\<rparr>) (elementsOf v') 0 pc' t'
           | TClass cl \<Rightarrow>
               checkParameters env (reflect env cl)
                 (map (\<lambda>x. propertyOf v' (name x)) (reflect env cl))
                 (pc'\<lparr>pcParent := cl, pcParentValue := v'\<rparr>) t'
           | TPrim n \<Rightarrow> (Inr [], t')))
   \<and> (checkParameter env p x (pcA\<lparr>pcPath := pcPath pcA @ [name p]\<rparr>) sA = (Inr issues, tA)
      \<and> checkParameters env ps xs pcA tA = (Inr others, uA) \<longrightarrow>
      checkParameters env (p # ps) (x # xs) pcA sA = (Inr (issues @ others), uA))
   \<and> (checkParameter env metaB y (pcB\<lparr>pcPath := pcPath pcB @ [toString i]\<rparr>) sB = (Inr issuesB, tB)
      \<and> checkItems env metaB ys (Suc i) pcB tB = (Inr othersB, uB) \<longrightarrow>
      checkItems env metaB (y # ys) i pcB sB = (Inr (issuesB @ othersB), uB))
   \<and> (checkParameters env ms vs
          \<lparr>pcPath = [], pcInfo = info, pcParent = controllerName (route (ctx info)),
           pcParentValue = Undefined\<rparr> sC = (Inr paths, tC) \<and> paths \<noteq> [] \<longrightarrow>
      checkUserAccessToParameters env ms vs info sC
        = (Inl (HttpStatusError (if user info = None then 403 else 401)
                  (''Unauthorized to populate parameter paths ('' @ join '', '' paths @ '')'')), tC))"
  by (auto simp: checkParameter.simps writeCheck_def checkUserAccessToParameters_def
      throwAuthError_def Forbidden_def Unauthorized_def split: ty.splits)

theorem denied_paths_are_collected_witness:
  "checkParameter exampleClasses idProperty (Num 1) (itemContext\<lparr>pcPath := [''data'', ''0'', ''id'']\<rparr>)
       (exampleState examplePolicies)
     = (Inr [''data.0.id''],
        \<lparr>authPolicies = rev examplePolicies, invoked = [(''admin'', Num 1)]\<rparr>)
   \<and> checkParameters exampleClasses (reflect exampleClasses ''Item'')
       [Num 1, Str ''x'', Obj ''Owner'' [(''id'', Num 2)], Undefined] itemContext
       (exampleState examplePolicies)
     = (Inr [''data.0.id'', ''data.0.owner''],
        \<lparr>authPolicies = examplePolicies,
         invoked = [(''admin'', Num 1), (''admin'', Obj ''Owner'' [(''id'', Num 2)])]\<rparr>)
   \<and> checkUserAccessToParameters exampleClasses [dataParameter] [dataValue]
       (createAuthContext (saveRequest exampleUser) Write) (exampleState examplePolicies)
     = (Inl (HttpStatusError 401
               ''Unauthorized to populate parameter paths (data.0.id, data.0.owner)''),
        \<lparr>authPolicies = examplePolicies,
         invoked = [(''admin'', Num 1), (''admin'', Obj ''Owner'' [(''id'', Num 2)])]\<rparr>)"
proof -
  let ?info = "createAuthContext (saveRequest exampleUser) Write"
  let ?s0 = "exampleState examplePolicies"
  let ?s1 = "\<lparr>authPolicies = rev examplePolicies, invoked = [(''admin'', Num 1)]\<rparr>"
  let ?s2 = "\<lparr>authPolicies = examplePolicies,
         invoked = [(''admin'', Num 1), (''admin'', Obj ''Owner'' [(''id'', Num 2)])]\<rparr>"
  let ?top = "\<lparr>pcPath = [''data''], pcInfo = ?info, pcParent = ''AnimalController'',
         pcParentValue = Undefined\<rparr>"
  let ?itemMeta = "dataParameter\<lparr>type := TClass ''Item''\<rparr>"
  let ?rest = "tl (reflect exampleClasses ''Item'')"
  have props: "reflect exampleClasses ''Item'' = idProperty # ?rest"
    by (simp add: example_defs reflect_def)
  have writes: "authorizeDecorators (\<lambda>x. access x = Write) (decorators idProperty) \<noteq> []"
    by (simp add: example_defs)
  have denied: "executeAuthorizer exampleClasses
        (authorizeDecorators (\<lambda>x. access x = Write) (decorators idProperty))
        (createContext (itemContext\<lparr>pcPath := [''data'', ''0'', ''id'']\<rparr>) (Num 1) idProperty) ?s0
      = (Inr False, ?s1)"
    by (simp add: example_defs engine_defs)
  have allowed: "writeCheck exampleClasses ?itemMeta itemValue (?top\<lparr>pcPath := [''data'', ''0'']\<rparr>) ?s0
      = (Inr True, ?s0)"
    by (simp add: example_defs engine_defs)
  have first: "checkParameter exampleClasses idProperty (Num 1)
        (itemContext\<lparr>pcPath := pcPath itemContext @ [name idProperty]\<rparr>) ?s0
      = (Inr [''data.0.id''], ?s1)"
    by (simp add: example_defs engine_defs)
  have siblings: "checkParameters exampleClasses ?rest
        [Str ''x'', Obj ''Owner'' [(''id'', Num 2)], Undefined] itemContext ?s1
      = (Inr [''data.0.owner''], ?s2)"
    by (simp add: example_defs engine_defs)
  have element: "checkParameter exampleClasses ?itemMeta itemValue
        (?top\<lparr>pcPath := pcPath ?top @ [toString 0]\<rparr>) ?s0
      = (Inr [''data.0.id'', ''data.0.owner''], ?s2)"
    by (simp add: example_defs engine_defs)
  have others: "checkItems exampleClasses ?itemMeta [] (Suc 0) ?top ?s2 = (Inr [], ?s2)"
    by simp
  have walk: "checkParameters exampleClasses [dataParameter] [dataValue]
        \<lparr>pcPath = [], pcInfo = ?info, pcParent = controllerName (route (ctx ?info)),
         pcParentValue = Undefined\<rparr> ?s0
      = (Inr [''data.0.id'', ''data.0.owner''], ?s2)"
    by (simp add: example_defs engine_defs)
  have verb: "httpMethod (ctx (pcInfo itemContext)) \<noteq> ''GET''" "user ?info \<noteq> None"
    by (simp_all add: example_defs createAuthContext_def)
  show ?thesis
    using props writes denied allowed first siblings element others walk verb
      denied_paths_are_collected [where env = exampleClasses
        and v = "Num 1" and pc = "itemContext\<lparr>pcPath := [''data'', ''0'', ''id'']\<rparr>"
        and meta = idProperty and s = ?s0 and t = ?s1
        and v' = itemValue and pc' = "?top\<lparr>pcPath := [''data'', ''0'']\<rparr>"
        and meta' = ?itemMeta and s' = ?s0 and t' = ?s0
        and p = idProperty and x = "Num 1" and ps = ?rest
        and xs = "[Str ''x'', Obj ''Owner'' [(''id'', Num 2)], Undefined]"
        and pcA = itemContext and sA = ?s0 and tA = ?s1 and uA = ?s2
        and issues = "[''data.0.id'']" and others = "[''data.0.owner'']"
        and metaB = ?itemMeta and y = itemValue and ys = "[]" and i = 0 and pcB = ?top
        and sB = ?s0 and tB = ?s2 and uB = ?s2
        and issuesB = "[''data.0.id'', ''data.0.owner'']" and othersB = "[]"
        and ms = "[dataParameter]" and vs = "[dataValue]" and info = ?info and sC = ?s0
        and paths = "[''data.0.id'', ''data.0.owner'']" and tC = ?s2]
    by (simp add: itemContext_def)
qed

subsection \<open>Compiling types\<close>

lemma compileType_total: "All compileType_dom"
  apply (relation "inv_image (less_than <*lex*> less_than)
    (\<lambda>(env, t, parentTypes). (card (fst ` set env - set parentTypes), size t))")
  subgoal by (intro wf_inv_image wf_lex_prod wf_less_than)
  subgoal by simp
  subgoal for env c parentTypes p
    using reflect_nonempty [of p env c] card_parentTypes [of c env parentTypes]
    by auto
  done

text \<open>
  C6. \<open>compileType\<close> terminates on every table of classes, every type and every chain of
  ancestors: every input is in the domain of its recursion. A class that is already on the
  chain compiles to a class node without properties; any other class compiles its
  properties with the class appended to the chain.
\<close>

theorem compileType_cycle_guard:
  "compileType_dom (env, t, parentTypes)
   \<and> (c \<in> set parentTypes \<longrightarrow> compileType env (TClass c) parentTypes = ClassNode [])
   \<and> (c \<notin> set parentTypes \<longrightarrow>
        compileType env (TClass c) parentTypes
          = ClassNode
              (map (\<lambda>p. PropertyNode (name p)
                          \<lparr>ckind = kind p, cname = name p, cparent = Some c\<rparr>
                          (snd (createPropertyNode p))
                          (compileType env (type p) (parentTypes @ [c])))
                 (reflect env c)))
   \<and> compileType env (TArray t) parentTypes = ArrayNode (compileType env t parentTypes)
   \<and> compileType env (TPrim n) parentTypes = ValueNode"
  using compileType_total by (simp add: createPropertyNode_def Let_def)

theorem compileType_cycle_guard_witness:
  "''Item'' \<in> set [''Item'', ''Owner'']
   \<and> compileType exampleClasses (TClass ''Item'') [''Item'', ''Owner''] = ClassNode []
   \<and> compileType exampleClasses (TClass ''Item'') []
      = ClassNode
          [PropertyNode ''id'' \<lparr>ckind = KProperty, cname = ''id'', cparent = Some ''Item''\<rparr>
             (Always True) ValueNode,
           PropertyNode ''name'' \<lparr>ckind = KProperty, cname = ''name'', cparent = Some ''Item''\<rparr>
             (Always True) ValueNode,
           PropertyNode ''owner'' \<lparr>ckind = KProperty, cname = ''owner'', cparent = Some ''Item''\<rparr>
             (Always True)
             (ClassNode
                [PropertyNode ''id'' \<lparr>ckind = KProperty, cname = ''id'', cparent = Some ''Owner''\<rparr>
                   (Always True) ValueNode,
                 PropertyNode ''items''
                   \<lparr>ckind = KProperty, cname = ''items'', cparent = Some ''Owner''\<rparr>
                   (Always True) (ArrayNode (ClassNode []))]),
           PropertyNode ''secret'' \<lparr>ckind = KProperty, cname = ''secret'', cparent = Some ''Item''\<rparr>
             (ByPolicies [''admin'']) ValueNode]"
  using compileType_cycle_guard [of exampleClasses "TClass ''Item''" "[''Item'', ''Owner'']" "''Item''"]
    compileType_cycle_guard [of exampleClasses "TClass ''Item''" "[]" "''Item''"]
  by (simp add: example_defs reflect_def createPropertyNode_def)

subsection \<open>Filtering responses\<close>

text \<open>
  C7, as the code has it. An array node on a raw value that is present and no array raises
  the error naming controller, action and the constructor of the value. A response whose
  body is the empty array is returned as it is, in the state as it was, so no policy is
  invoked. An element that filters to \<open>undefined\<close> is dropped and any other is kept, in
  order; an array node whose elements leave nothing, the empty array below the top level
  included, gives \<open>undefined\<close>, and the array of the kept elements otherwise. A class node whose
  properties leave no key gives \<open>undefined\<close>, and the plain object of the surviving keys
  otherwise. The body of any other filtered response is what the walk gives for it,
  \<open>undefined\<close> included.
\<close>

theorem response_filter_shapes:
  "(raw \<noteq> Undefined \<and> raw \<noteq> Null \<and> (\<forall>xs. raw \<noteq> Arr xs) \<longrightarrow>
      filterType env raw (ArrayNode child) c s
        = (Inl (Error (''Action '' @ controllerName (route (ctx c)) @ ''.''
                  @ actionName (route (ctx c))
                  @ '' expecting return value of type Array but got '' @ constructorName raw)), s))
   \<and> (body result = Arr [] \<longrightarrow> responseAuthorize env result actx s = (Inr result, s))
   \<and> filterType env (Arr []) (ArrayNode child) c s = (Inr Undefined, s)
   \<and> (filterType env item child c sA = (Inr Undefined, tA) \<longrightarrow>
        filterItems env (item # items) child c acc sA = filterItems env items child c acc tA)
   \<and> (filterType env item' child c sB = (Inr v, tB) \<and> v \<noteq> Undefined \<longrightarrow>
        filterItems env (item' # items) child c acc sB
          = filterItems env items child c (acc @ [v]) tB)
   \<and> filterItems env [] child c acc s = (Inr acc, s)
   \<and> (filterItems env itemsF child c [] sF = (Inr [], tF) \<longrightarrow>
        filterType env (Arr itemsF) (ArrayNode child) c sF = (Inr Undefined, tF))
   \<and> (filterItems env itemsG child c [] sG = (Inr (x # xs), tG) \<longrightarrow>
        filterType env (Arr itemsG) (ArrayNode child) c sG = (Inr (Arr (x # xs)), tG))
   \<and> (filterProperties env props rawC c [] sC = (Inr [], tC) \<longrightarrow>
        filterType env rawC (ClassNode props) c sC = (Inr Undefined, tC))
   \<and> (filterProperties env props' rawD c [] sD = (Inr (kv # kvs), tD) \<longrightarrow>
        filterType env rawD (ClassNode props') c sD = (Inr (Obj ''Object'' (kv # kvs)), tD))
   \<and> (declaredType (route actx') = Some ty \<and> ty \<noteq> TPrim ''Promise'' \<and> status result' = 200
        \<and> truthy (body result') \<and> body result' \<noteq> Arr []
        \<and> filterType env (body result') (compileType env ty []) (createAuthContext actx' Read) sE
            = (Inr b, tE) \<longrightarrow>
        responseAuthorize env result' actx' sE = (Inr (result'\<lparr>body := b\<rparr>), tE))"
proof -
  have notArray: "filterType env raw (ArrayNode child) c s = (Inl (notArrayError c raw), s)"
    if "\<forall>xs. raw \<noteq> Arr xs"
    using that by (cases raw) (simp_all add: filterType.simps)
  have shape: "raw \<noteq> Undefined \<and> raw \<noteq> Null \<and> (\<forall>xs. raw \<noteq> Arr xs) \<longrightarrow>
      filterType env raw (ArrayNode child) c s
        = (Inl (Error (''Action '' @ controllerName (route (ctx c)) @ ''.''
                  @ actionName (route (ctx c))
                  @ '' expecting return value of type Array but got '' @ constructorName raw)), s)"
    using notArray by (simp add: notArrayError_def)
  have emptyBody: "body result = Arr [] \<longrightarrow> responseAuthorize env result actx s = (Inr result, s)"
    by (simp add: responseAuthorize_def Let_def split: option.splits)
  have emptyArray: "filterType env (Arr []) (ArrayNode child) c s = (Inr Undefined, s)"
    by (simp add: filterType.simps filterItems.simps)
  have dropped: "filterType env item child c sA = (Inr Undefined, tA) \<longrightarrow>
        filterItems env (item # items) child c acc sA = filterItems env items child c acc tA"
    by (simp add: filterItems.simps)
  have kept: "filterType env item' child c sB = (Inr v, tB) \<and> v \<noteq> Undefined \<longrightarrow>
        filterItems env (item' # items) child c acc sB
          = filterItems env items child c (acc @ [v]) tB"
    by (simp add: filterItems.simps)
  have finished: "filterItems env [] child c acc s = (Inr acc, s)"
    by (simp add: filterItems.simps)
  have allDropped: "filterItems env itemsF child c [] sF = (Inr [], tF) \<longrightarrow>
        filterType env (Arr itemsF) (ArrayNode child) c sF = (Inr Undefined, tF)"
    by (simp add: filterType.simps)
  have someKept: "filterItems env itemsG child c [] sG = (Inr (x # xs), tG) \<longrightarrow>
        filterType env (Arr itemsG) (ArrayNode child) c sG = (Inr (Arr (x # xs)), tG)"
    by (simp add: filterType.simps)
  have collapsed: "filterProperties env props rawC c [] sC = (Inr [], tC) \<longrightarrow>
        filterType env rawC (ClassNode props) c sC = (Inr Undefined, tC)"
    by (simp add: filterType.simps)
  have object: "filterProperties env props' rawD c [] sD = (Inr (kv # kvs), tD) \<longrightarrow>
        filterType env rawD (ClassNode props') c sD = (Inr (Obj ''Object'' (kv # kvs)), tD)"
    by (simp add: filterType.simps)
  have top: "declaredType (route actx') = Some ty \<and> ty \<noteq> TPrim ''Promise'' \<and> status result' = 200
        \<and> truthy (body result') \<and> body result' \<noteq> Arr []
        \<and> filterType env (body result') (compileType env ty []) (createAuthContext actx' Read) sE
            = (Inr b, tE) \<longrightarrow>
        responseAuthorize env result' actx' sE = (Inr (result'\<lparr>body := b\<rparr>), tE)"
    by (simp add: responseAuthorize_def Let_def)
  show ?thesis
    using shape emptyBody emptyArray dropped kept finished allDropped someKept collapsed object top
    by blast
qed

theorem response_filter_shapes_witness:
  "filterType exampleClasses (Num 12) (ArrayNode (ClassNode itemProperties))
       (createAuthContext (readRequest exampleUser) Read) (exampleState examplePolicies)
     = (Inl (Error ''Action AnimalController.get expecting return value of type Array but got Number''),
        exampleState examplePolicies)
   \<and> responseAuthorize exampleClasses \<lparr>status = 200, body = Arr []\<rparr> (readRequest exampleUser)
       (exampleState examplePolicies)
     = (Inr \<lparr>status = 200, body = Arr []\<rparr>, exampleState examplePolicies)
   \<and> filterType exampleClasses
       (Arr [Obj ''Item'' [(''secret'', Str ''s'')],
             Obj ''Item'' [(''name'', Str ''x''), (''secret'', Str ''s'')]])
       (ArrayNode (ClassNode itemProperties))
       (createAuthContext (readRequest exampleUser) Read) (exampleState examplePolicies)
     = (Inr (Arr [Obj ''Object'' [(''name'', Str ''x'')]]),
        \<lparr>authPolicies = examplePolicies,
         invoked = [(''admin'', Str ''s''), (''admin'', Str ''s'')]\<rparr>)
   \<and> filterType exampleClasses
       (Arr [Obj ''Item'' [(''secret'', Str ''s'')], Obj ''Item'' [(''secret'', Str ''s'')]])
       (ArrayNode (ClassNode itemProperties))
       (createAuthContext (readRequest exampleUser) Read) (exampleState examplePolicies)
     = (Inr Undefined,
        \<lparr>authPolicies = examplePolicies,
         invoked = [(''admin'', Str ''s''), (''admin'', Str ''s'')]\<rparr>)
   \<and> responseAuthorize exampleClasses
       \<lparr>status = 200, body = Obj ''Item'' [(''name'', Str ''x''), (''secret'', Str ''s'')]\<rparr>
       (readRequest exampleUser) (exampleState examplePolicies)
     = (Inr \<lparr>status = 200, body = Obj ''Object'' [(''name'', Str ''x'')]\<rparr>,
        \<lparr>authPolicies = rev examplePolicies, invoked = [(''admin'', Str ''s'')]\<rparr>)"
proof -
  let ?c = "createAuthContext (readRequest exampleUser) Read"
  let ?s0 = "exampleState examplePolicies"
  let ?s1 = "\<lparr>authPolicies = rev examplePolicies, invoked = [(''admin'', Str ''s'')]\<rparr>"
  let ?s2 = "\<lparr>authPolicies = examplePolicies,
         invoked = [(''admin'', Str ''s''), (''admin'', Str ''s'')]\<rparr>"
  let ?hidden = "Obj ''Item'' [(''secret'', Str ''s'')]"
  let ?shown = "Obj ''Item'' [(''name'', Str ''x''), (''secret'', Str ''s'')]"
  let ?child = "ClassNode itemProperties"
  have dropped: "filterType exampleClasses ?hidden ?child ?c ?s0 = (Inr Undefined, ?s1)"
    by (simp add: example_defs engine_defs filter_defs)
  have kept: "filterType exampleClasses ?shown ?child ?c ?s1
      = (Inr (Obj ''Object'' [(''name'', Str ''x'')]), ?s2)"
    by (simp add: example_defs engine_defs filter_defs)
  have none: "filterProperties exampleClasses itemProperties ?hidden ?c [] ?s0 = (Inr [], ?s1)"
    by (simp add: example_defs engine_defs filter_defs)
  have some: "filterProperties exampleClasses itemProperties ?shown ?c [] ?s0
      = (Inr [(''name'', Str ''x'')], ?s1)"
    by (simp add: example_defs engine_defs filter_defs)
  have declared: "declaredType (route (readRequest exampleUser)) = Some (TClass ''Item'')"
    by (simp add: example_defs declaredType_def)
  have body: "filterType exampleClasses ?shown (compileType exampleClasses (TClass ''Item'') []) ?c ?s0
      = (Inr (Obj ''Object'' [(''name'', Str ''x'')]), ?s1)"
    by (simp add: example_defs engine_defs filter_defs)
  have walk: "filterType exampleClasses (Arr [?hidden, ?shown]) (ArrayNode ?child) ?c ?s0
      = (Inr (Arr [Obj ''Object'' [(''name'', Str ''x'')]]), ?s2)"
    by (simp add: example_defs engine_defs filter_defs)
  have allDropped: "filterItems exampleClasses [?hidden, ?hidden] ?child ?c [] ?s0 = (Inr [], ?s2)"
    by (simp add: example_defs engine_defs filter_defs)
  have someKept: "filterItems exampleClasses [?hidden, ?shown] ?child ?c [] ?s0
      = (Inr [Obj ''Object'' [(''name'', Str ''x'')]], ?s2)"
    by (simp add: example_defs engine_defs filter_defs)
  have names: "controllerName (route (ctx ?c)) = ''AnimalController''"
    "actionName (route (ctx ?c)) = ''get''"
    by (simp_all add: example_defs createAuthContext_def)
  show ?thesis
    using dropped kept none some declared body walk allDropped someKept names
      response_filter_shapes [where env = exampleClasses and raw = "Num 12" and child = ?child
        and c = ?c and s = ?s0 and result = "\<lparr>status = 200, body = Arr []\<rparr>"
        and actx = "readRequest exampleUser"
        and item = ?hidden and sA = ?s0 and tA = ?s1 and items = "[]" and acc = "[]"
        and item' = ?shown and sB = ?s1 and tB = ?s2
        and v = "Obj ''Object'' [(''name'', Str ''x'')]"
        and itemsF = "[?hidden, ?hidden]" and sF = ?s0 and tF = ?s2
        and itemsG = "[?hidden, ?shown]" and sG = ?s0 and tG = ?s2
        and x = "Obj ''Object'' [(''name'', Str ''x'')]" and xs = "[]"
        and props = itemProperties and rawC = ?hidden and sC = ?s0 and tC = ?s1
        and props' = itemProperties and rawD = ?shown and sD = ?s0 and tD = ?s1
        and kv = "(''name'', Str ''x'')" and kvs = "[]"
        and actx' = "readRequest exampleUser" and ty = "TClass ''Item''"
        and result' = "\<lparr>status = 200, body = ?shown\<rparr>" and sE = ?s0 and tE = ?s1
        and b = "Obj ''Object'' [(''name'', Str ''x'')]"]
    by simp
qed

text \<open>
  C7 as stated fails: the response of an action declared to return an \<open>Item\<close>, whose only
  present property is one the user may not read, is not returned as it is but with the body
  \<open>undefined\<close>; and an array node gives \<open>undefined\<close>, not the empty array, for an empty array.
\<close>

theorem empty_top_level_object_is_dropped:
  "responseAuthorize exampleClasses \<lparr>status = 200, body = Obj ''Item'' [(''secret'', Str ''s'')]\<rparr>
       (readRequest exampleUser) (exampleState examplePolicies)
     = (Inr \<lparr>status = 200, body = Undefined\<rparr>,
        \<lparr>authPolicies = rev examplePolicies, invoked = [(''admin'', Str ''s'')]\<rparr>)
   \<and> filterType exampleClasses (Arr []) (ArrayNode ValueNode)
       (createAuthContext (readRequest exampleUser) Read) (exampleState examplePolicies)
     = (Inr Undefined, exampleState examplePolicies)"
  by (simp add: example_defs engine_defs filter_defs)

end
